theory Spec2Isabelle
  imports Complex_Main "HOL-Library.AList" "HOL-Library.Sublist"
begin

section \<open>The chat widget of \<^verbatim>\<open>src/pages/Home.tsx\<close>\<close>

text \<open>
  The widget is a React component: nine pieces of state, four effects, and the handlers
  of its buttons and its input field. The model keeps the component state in a record,
  the browser's storage area, the greeting timer and the number of agent calls in flight
  beside it, and makes every handler a function from the old world to the new one.

  Strings are lists of code units; the model covers the code units below 256, so a
  \<^typ>\<open>char\<close> is one code unit and \<^const>\<open>length\<close> is the \<^verbatim>\<open>length\<close> of the source.
  The clock (\<^verbatim>\<open>Date.now()\<close>, \<^verbatim>\<open>new Date()\<close>) and \<^verbatim>\<open>Math.random()\<close> are inputs
  of the handler that reads them.
\<close>

subsection \<open>Interfaces\<close>

record LeadQualification =
  is_qualified :: bool
  interest_level :: string
  next_action :: string

record AgentResult =
  ar_message :: string
  ar_lead_qualification :: "LeadQualification option"
  ar_suggested_actions :: "string list option"

datatype Role = User | Agent

text \<open>A \<^verbatim>\<open>Date\<close> holds a time value in milliseconds, or is the invalid date.\<close>

datatype Date = Date int | Invalid_Date

record Message =
  msg_id :: string
  role :: Role
  content :: string
  timestamp :: Date
  suggested_actions :: "string list option"
  lead_qualification :: "LeadQualification option"

record ChatState =
  cs_messages :: "Message list"
  cs_sessionId :: string
  cs_userId :: string

subsection \<open>Constants\<close>

definition STORAGE_KEY :: string where
  "STORAGE_KEY = ''chat_widget_state''"

definition USER_ID_KEY :: string where
  "USER_ID_KEY = ''chat_user_id''"

definition AUTO_GREETING_DELAY :: int where
  "AUTO_GREETING_DELAY = 5000"

definition MAX_CHAR_LIMIT :: nat where
  "MAX_CHAR_LIMIT = 250"

definition INITIAL_GREETING :: string where
  "INITIAL_GREETING = ''Hi! Welcome to our website. I'' @ [CHR 0x27] @ ''m here to help you learn about our services, pricing, and availability. How can I assist you today?''"

definition GREETING_ACTIONS :: "string list" where
  "GREETING_ACTIONS = [''View Services'', ''Check Availability'', ''Pricing Info'', ''Book Now'']"

definition APOLOGY_EMPTY :: string where
  "APOLOGY_EMPTY = ''I apologize, I could not generate a response.''"

definition APOLOGY_PROCESSING :: string where
  "APOLOGY_PROCESSING = ''I apologize, but I encountered an issue processing your request. Please try again.''"

definition APOLOGY_NETWORK :: string where
  "APOLOGY_NETWORK = ''I apologize, but I encountered a network error. Please check your connection and try again.''"

subsection \<open>String operations of the platform\<close>

definition is_space :: "char \<Rightarrow> bool" where
  "is_space c = (of_char c \<in> {9, 10, 11, 12, 13, 32, 160 :: nat})"

text \<open>\<^verbatim>\<open>String.prototype.trim\<close>: white space and line terminators go, at both ends.\<close>

definition trim :: "string \<Rightarrow> string" where
  "trim s = rev (dropWhile is_space (rev (dropWhile is_space s)))"

definition lower_char :: "char \<Rightarrow> char" where
  "lower_char c =
     (let n = (of_char c :: nat)
      in if (65 \<le> n \<and> n \<le> 90) \<or> (192 \<le> n \<and> n \<le> 222 \<and> n \<noteq> 215)
         then char_of (n + 32) else c)"

definition toLowerCase :: "string \<Rightarrow> string" where
  "toLowerCase s = map lower_char s"

text \<open>\<^verbatim>\<open>s.includes(t)\<close>: \<open>t\<close> occurs in \<open>s\<close> as a contiguous run.\<close>

fun includes_str :: "string \<Rightarrow> string \<Rightarrow> bool" where
  "includes_str [] t = (t = [])"
| "includes_str (c # s) t = (prefix t (c # s) \<or> includes_str s t)"

definition digit_char :: "nat \<Rightarrow> char" where
  "digit_char n = ''0123456789'' ! n"

fun nat_to_string :: "nat \<Rightarrow> string" where
  "nat_to_string n =
     (if n < 10 then [digit_char n] else nat_to_string (n div 10) @ [digit_char (n mod 10)])"

declare nat_to_string.simps [simp del]

definition int_to_string :: "int \<Rightarrow> string" where
  "int_to_string i = (if i < 0 then CHR ''-'' # nat_to_string (nat (- i)) else nat_to_string (nat i))"

subsection \<open>Identifiers\<close>

text \<open>
  What a handler reads from outside: the clock, and the text that
  \<^verbatim>\<open>Math.random().toString(36).substr(2, 9)\<close> yields.
\<close>

record env =
  now :: int
  rnd :: string

definition generateId :: "env \<Rightarrow> string" where
  "generateId e = int_to_string (now e) @ ''-'' @ rnd e"

definition generateSessionId :: "env \<Rightarrow> string" where
  "generateSessionId e = ''session-'' @ generateId e"

subsection \<open>The storage area\<close>

text \<open>
  \<^verbatim>\<open>localStorage\<close> maps keys to strings. A write that would take the area over its
  quota throws; the quota counts the code units of the keys and values.
\<close>

datatype js_error = QuotaExceededError | SyntaxError | TypeError

record localStorage =
  items :: "(string \<times> string) list"
  quota :: nat

definition area_size :: "(string \<times> string) list \<Rightarrow> nat" where
  "area_size xs = sum_list (map (\<lambda>(k, v). length k + length v) xs)"

definition getItem :: "localStorage \<Rightarrow> string \<Rightarrow> string option" where
  "getItem st k = map_of (items st) k"

definition setItem :: "localStorage \<Rightarrow> string \<Rightarrow> string \<Rightarrow> js_error + localStorage" where
  "setItem st k v =
     (let items' = AList.update k v (items st)
      in if area_size items' \<le> quota st then Inr (st\<lparr>items := items'\<rparr>)
         else Inl QuotaExceededError)"

text \<open>Whether the write of a text under the snapshot key stays within the quota.\<close>

definition fits :: "localStorage \<Rightarrow> string \<Rightarrow> bool" where
  "fits st txt = (area_size (AList.update STORAGE_KEY txt (items st)) \<le> quota st)"

definition removeItem :: "localStorage \<Rightarrow> string \<Rightarrow> localStorage" where
  "removeItem st k = st\<lparr>items := AList.delete k (items st)\<rparr>"

text \<open>
  \<^verbatim>\<open>generateUserId\<close>: the stored identifier when there is one (the empty string is falsy
  and counts as none); otherwise a new one, stored before it is returned. The write is
  not guarded, so its exception reaches the caller.
\<close>

definition generateUserId :: "env \<Rightarrow> localStorage \<Rightarrow> js_error + (string \<times> localStorage)" where
  "generateUserId e st =
     (case getItem st USER_ID_KEY of
        Some u \<Rightarrow>
          if u \<noteq> [] then Inr (u, st)
          else (let userId = ''user-'' @ generateId e
                in case setItem st USER_ID_KEY userId of
                     Inl err \<Rightarrow> Inl err
                   | Inr st' \<Rightarrow> Inr (userId, st'))
      | None \<Rightarrow>
          (let userId = ''user-'' @ generateId e
           in case setItem st USER_ID_KEY userId of
                Inl err \<Rightarrow> Inl err
              | Inr st' \<Rightarrow> Inr (userId, st')))"

subsection \<open>JSON values and the platform\<close>

datatype json =
    JNull
  | JBool bool
  | JNum rat
  | JStr string
  | JArr "json list"
  | JObj "(string \<times> json) list"

text \<open>
  The functions of the JavaScript platform that the persistence code calls and that are
  no part of the repository are parameters of the model: \<^verbatim>\<open>JSON.stringify\<close>,
  \<^verbatim>\<open>JSON.parse\<close> (\<open>None\<close> is its \<^verbatim>\<open>SyntaxError\<close>), \<^verbatim>\<open>Date.prototype.toISOString\<close>
  on a time value, the \<^verbatim>\<open>Date\<close> constructor on a string, and the conversion of a number
  to a string.
\<close>

record platform =
  JSON_stringify :: "json \<Rightarrow> string"
  JSON_parse :: "string \<Rightarrow> json option"
  toISOString :: "int \<Rightarrow> string"
  Date_of_string :: "string \<Rightarrow> Date"
  Number_toString :: "rat \<Rightarrow> string"

text \<open>\<^verbatim>\<open>Date.prototype.toJSON\<close>: the ISO string, and \<^verbatim>\<open>null\<close> for the invalid date.\<close>

definition Date_toJSON :: "platform \<Rightarrow> Date \<Rightarrow> json" where
  "Date_toJSON P d = (case d of Invalid_Date \<Rightarrow> JNull | Date t \<Rightarrow> JStr (toISOString P t))"

definition TimeClip :: "rat \<Rightarrow> Date" where
  "TimeClip r =
     (if \<bar>r\<bar> > 8640000000000000 then Invalid_Date
      else Date (if r < 0 then \<lceil>r\<rceil> else \<lfloor>r\<rfloor>))"

text \<open>
  The conversion of a parsed object to a primitive. No property of a parsed value is
  callable, so an own \<^verbatim>\<open>toString\<close> property hides the inherited method and the
  conversion throws; an own \<^verbatim>\<open>valueOf\<close> is skipped, and the inherited one returns the
  object itself, which is no primitive. Without an own \<^verbatim>\<open>toString\<close> the inherited
  method gives the fixed text.
\<close>

definition object_string :: "(string \<times> json) list \<Rightarrow> js_error + string" where
  "object_string fs =
     (if ''toString'' \<in> set (map fst fs) then Inl TypeError else Inr ''[object Object]'')"

text \<open>
  The conversion of a parsed array to a primitive is \<^verbatim>\<open>Array.prototype.join\<close>: the
  strings of the elements, separated by commas, where \<^verbatim>\<open>null\<close> gives the empty string
  and an element that is an object may throw. \<open>N\<close> converts a number.
\<close>

fun element_string :: "(rat \<Rightarrow> string) \<Rightarrow> json \<Rightarrow> js_error + string"
  and join_elements :: "(rat \<Rightarrow> string) \<Rightarrow> json list \<Rightarrow> js_error + string" where
  "element_string N JNull = Inr []"
| "element_string N (JBool b) = Inr (if b then ''true'' else ''false'')"
| "element_string N (JNum r) = Inr (N r)"
| "element_string N (JStr s) = Inr s"
| "element_string N (JArr xs) = join_elements N xs"
| "element_string N (JObj fs) = object_string fs"
| "join_elements N [] = Inr []"
| "join_elements N [x] = element_string N x"
| "join_elements N (x # y # ys) =
     (case element_string N x of
        Inl err \<Rightarrow> Inl err
      | Inr s \<Rightarrow>
          (case join_elements N (y # ys) of
             Inl err \<Rightarrow> Inl err
           | Inr t \<Rightarrow> Inr (s @ '','' @ t)))"

text \<open>
  \<^verbatim>\<open>new Date(v)\<close> for a property value of a parsed object; \<open>None\<close> is \<^verbatim>\<open>undefined\<close>
  (the property is missing). An array or an object is converted to a primitive string
  first, which may throw.
\<close>

definition new_Date :: "platform \<Rightarrow> json option \<Rightarrow> js_error + Date" where
  "new_Date P v =
     (case v of
        None \<Rightarrow> Inr Invalid_Date
      | Some JNull \<Rightarrow> Inr (Date 0)
      | Some (JBool b) \<Rightarrow> Inr (Date (if b then 1 else 0))
      | Some (JNum r) \<Rightarrow> Inr (TimeClip r)
      | Some (JStr s) \<Rightarrow> Inr (Date_of_string P s)
      | Some (JArr xs) \<Rightarrow>
          (case join_elements (Number_toString P) xs of
             Inl err \<Rightarrow> Inl err
           | Inr s \<Rightarrow> Inr (Date_of_string P s))
      | Some (JObj fs) \<Rightarrow>
          (case object_string fs of
             Inl err \<Rightarrow> Inl err
           | Inr s \<Rightarrow> Inr (Date_of_string P s)))"

subsection \<open>What \<^verbatim>\<open>JSON.stringify\<close> sees of a snapshot\<close>

definition role_text :: "Role \<Rightarrow> string" where
  "role_text r = (case r of User \<Rightarrow> ''user'' | Agent \<Rightarrow> ''agent'')"

definition LeadQualification_json :: "LeadQualification \<Rightarrow> json" where
  "LeadQualification_json q =
     JObj [(''is_qualified'', JBool (is_qualified q)),
           (''interest_level'', JStr (interest_level q)),
           (''next_action'', JStr (next_action q))]"

text \<open>A property whose value is \<^verbatim>\<open>undefined\<close> is left out of the text.\<close>

definition optional_props :: "Message \<Rightarrow> (string \<times> json) list" where
  "optional_props m =
     (case suggested_actions m of
        None \<Rightarrow> []
      | Some acts \<Rightarrow> [(''suggested_actions'', JArr (map JStr acts))])
     @ (case lead_qualification m of
          None \<Rightarrow> []
        | Some q \<Rightarrow> [(''lead_qualification'', LeadQualification_json q)])"

definition Message_json :: "platform \<Rightarrow> Message \<Rightarrow> json" where
  "Message_json P m =
     JObj ([(''id'', JStr (msg_id m)),
            (''role'', JStr (role_text (role m))),
            (''content'', JStr (content m)),
            (''timestamp'', Date_toJSON P (timestamp m))]
           @ optional_props m)"

definition ChatState_json :: "platform \<Rightarrow> ChatState \<Rightarrow> json" where
  "ChatState_json P s =
     JObj [(''messages'', JArr (map (Message_json P) (cs_messages s))),
           (''sessionId'', JStr (cs_sessionId s)),
           (''userId'', JStr (cs_userId s))]"

subsection \<open>The persistence adapter\<close>

text \<open>\<^verbatim>\<open>saveChatState\<close>: a failed write is logged and otherwise ignored.\<close>

definition saveChatState :: "platform \<Rightarrow> ChatState \<Rightarrow> localStorage \<Rightarrow> localStorage" where
  "saveChatState P state st =
     (case setItem st STORAGE_KEY (JSON_stringify P (ChatState_json P state)) of
        Inl err \<Rightarrow> st
      | Inr st' \<Rightarrow> st')"

text \<open>
  A message as \<^verbatim>\<open>loadChatState\<close> rebuilds it, \<^verbatim>\<open>{...msg, timestamp: new Date(msg.timestamp)}\<close>:
  the own properties of \<^verbatim>\<open>msg\<close> other than \<^verbatim>\<open>timestamp\<close>, and the new date.
\<close>

record loaded_msg =
  lm_props :: "(string \<times> json) list"
  lm_timestamp :: Date

record loaded_state =
  ls_messages :: "loaded_msg list"
  ls_fields :: "(string \<times> json) list"

definition index_props :: "json list \<Rightarrow> (string \<times> json) list" where
  "index_props xs = zip (map nat_to_string [0 ..< length xs]) xs"

text \<open>
  The spread of a parsed value: an object gives its properties, an array its elements
  and a string its characters under their indices, a number or a boolean nothing.
\<close>

definition spread :: "json \<Rightarrow> (string \<times> json) list" where
  "spread v =
     (case v of
        JObj fs \<Rightarrow> fs
      | JArr xs \<Rightarrow> index_props xs
      | JStr s \<Rightarrow> index_props (map (\<lambda>c. JStr [c]) s)
      | _ \<Rightarrow> [])"

definition get_prop :: "json \<Rightarrow> string \<Rightarrow> json option" where
  "get_prop v k = (case v of JObj fs \<Rightarrow> map_of fs k | _ \<Rightarrow> None)"

definition rebuilt :: "json \<Rightarrow> Date \<Rightarrow> loaded_msg" where
  "rebuilt msg d = \<lparr>lm_props = AList.delete ''timestamp'' (spread msg), lm_timestamp = d\<rparr>"

text \<open>
  The callback of \<^verbatim>\<open>map\<close>. Reading \<^verbatim>\<open>msg.timestamp\<close> of \<^verbatim>\<open>null\<close> throws, of any
  other value it does not; the \<^verbatim>\<open>Date\<close> constructor may throw.
\<close>

definition rehydrate :: "platform \<Rightarrow> json \<Rightarrow> js_error + loaded_msg" where
  "rehydrate P msg =
     (if msg = JNull then Inl TypeError
      else (case new_Date P (get_prop msg ''timestamp'') of
              Inl err \<Rightarrow> Inl err
            | Inr d \<Rightarrow> Inr (rebuilt msg d)))"

fun rehydrate_all :: "platform \<Rightarrow> json list \<Rightarrow> js_error + loaded_msg list" where
  "rehydrate_all P [] = Inr []"
| "rehydrate_all P (x # xs) =
     (case rehydrate P x of
        Inl err \<Rightarrow> Inl err
      | Inr m \<Rightarrow> (case rehydrate_all P xs of Inl err \<Rightarrow> Inl err | Inr ms \<Rightarrow> Inr (m # ms)))"

text \<open>
  The body of the \<^verbatim>\<open>try\<close> block of \<^verbatim>\<open>loadChatState\<close>, once the stored text is there:
  \<^verbatim>\<open>parsed.messages.map\<close> throws unless \<^verbatim>\<open>parsed\<close> is an object whose \<^verbatim>\<open>messages\<close>
  is an array.
\<close>

definition parse_state :: "platform \<Rightarrow> string \<Rightarrow> js_error + loaded_state" where
  "parse_state P saved =
     (case JSON_parse P saved of
        None \<Rightarrow> Inl SyntaxError
      | Some parsed \<Rightarrow>
          (case get_prop parsed ''messages'' of
             Some (JArr ms) \<Rightarrow>
               (case rehydrate_all P ms of
                  Inl err \<Rightarrow> Inl err
                | Inr lms \<Rightarrow>
                    Inr \<lparr>ls_messages = lms,
                         ls_fields = AList.delete ''messages'' (spread parsed)\<rparr>)
           | _ \<Rightarrow> Inl TypeError))"

text \<open>
  \<^verbatim>\<open>loadChatState\<close>: \<open>None\<close> is \<^verbatim>\<open>null\<close>. No stored text, or the empty text, gives
  \<^verbatim>\<open>null\<close>; so does every exception, which the \<^verbatim>\<open>catch\<close> logs.
\<close>

definition loadChatState :: "platform \<Rightarrow> localStorage \<Rightarrow> loaded_state option" where
  "loadChatState P st =
     (case getItem st STORAGE_KEY of
        None \<Rightarrow> None
      | Some saved \<Rightarrow>
          if saved = [] then None
          else (case parse_state P saved of Inl err \<Rightarrow> None | Inr s \<Rightarrow> Some s))"

subsection \<open>The loaded snapshot at the type \<^verbatim>\<open>ChatState\<close>\<close>

text \<open>
  \<^verbatim>\<open>loadChatState\<close> is declared to return a \<^verbatim>\<open>ChatState\<close>, and the component uses
  its messages at the type \<^verbatim>\<open>Message[]\<close>. The functions below read a rebuilt message
  at that type. They accept the objects that \<^const>\<open>Message_json\<close> writes (the
  properties in that order; the place of the timestamp among them is not kept, and a
  message without one is accepted, with the invalid date), and nothing else: what the
  component does with stored objects of another shape is outside the model.
\<close>

fun as_strings :: "json list \<Rightarrow> string list option" where
  "as_strings [] = Some []"
| "as_strings (JStr s # xs) = map_option (Cons s) (as_strings xs)"
| "as_strings (_ # xs) = None"

definition as_Role :: "string \<Rightarrow> Role option" where
  "as_Role r = (if r = ''user'' then Some User else if r = ''agent'' then Some Agent else None)"

definition as_LeadQualification :: "json \<Rightarrow> LeadQualification option" where
  "as_LeadQualification j =
     (case j of
        JObj [(k1, JBool b), (k2, JStr i), (k3, JStr n)] \<Rightarrow>
          if k1 = ''is_qualified'' \<and> k2 = ''interest_level'' \<and> k3 = ''next_action''
          then Some \<lparr>is_qualified = b, interest_level = i, next_action = n\<rparr>
          else None
      | _ \<Rightarrow> None)"

definition as_actions :: "string \<times> json \<Rightarrow> string list option" where
  "as_actions kv =
     (case kv of
        (k, JArr xs) \<Rightarrow> if k = ''suggested_actions'' then as_strings xs else None
      | _ \<Rightarrow> None)"

definition as_qualification :: "string \<times> json \<Rightarrow> LeadQualification option" where
  "as_qualification kv =
     (if fst kv = ''lead_qualification'' then as_LeadQualification (snd kv) else None)"

definition as_optional ::
  "(string \<times> json) list \<Rightarrow> (string list option \<times> LeadQualification option) option" where
  "as_optional rest =
     (case rest of
        [] \<Rightarrow> Some (None, None)
      | [kv] \<Rightarrow>
          (case as_actions kv of
             Some acts \<Rightarrow> Some (Some acts, None)
           | None \<Rightarrow> map_option (\<lambda>q. (None, Some q)) (as_qualification kv))
      | [kv1, kv2] \<Rightarrow>
          (case (as_actions kv1, as_qualification kv2) of
             (Some acts, Some q) \<Rightarrow> Some (Some acts, Some q)
           | _ \<Rightarrow> None)
      | _ \<Rightarrow> None)"

definition as_Message :: "loaded_msg \<Rightarrow> Message option" where
  "as_Message lm =
     (case lm_props lm of
        (k1, JStr i) # (k2, JStr r) # (k3, JStr c) # rest \<Rightarrow>
          if k1 = ''id'' \<and> k2 = ''role'' \<and> k3 = ''content''
          then (case (as_Role r, as_optional rest) of
                  (Some ro, Some (acts, q)) \<Rightarrow>
                    Some \<lparr>msg_id = i, role = ro, content = c, timestamp = lm_timestamp lm,
                          suggested_actions = acts, lead_qualification = q\<rparr>
                | _ \<Rightarrow> None)
          else None
      | _ \<Rightarrow> None)"

fun as_Messages :: "loaded_msg list \<Rightarrow> Message list option" where
  "as_Messages [] = Some []"
| "as_Messages (lm # lms) =
     (case as_Message lm of
        None \<Rightarrow> None
      | Some m \<Rightarrow> map_option (Cons m) (as_Messages lms))"

text \<open>The loaded snapshot, read at the type \<^verbatim>\<open>ChatState\<close>.\<close>

definition as_ChatState :: "loaded_state \<Rightarrow> ChatState option" where
  "as_ChatState l =
     (case (as_Messages (ls_messages l), ls_fields l) of
        (Some ms, [(k1, JStr sid), (k2, JStr uid)]) \<Rightarrow>
          if k1 = ''sessionId'' \<and> k2 = ''userId''
          then Some \<lparr>cs_messages = ms, cs_sessionId = sid, cs_userId = uid\<rparr>
          else None
      | _ \<Rightarrow> None)"

text \<open>
  What loading makes of a timestamp and of a message that the component wrote: the date
  that the \<^verbatim>\<open>Date\<close> constructor reads from \<^const>\<open>Date_toJSON\<close>, and the message rebuilt
  with it.
\<close>

definition reload_date :: "platform \<Rightarrow> Date \<Rightarrow> Date" where
  "reload_date P d =
     (case d of Invalid_Date \<Rightarrow> Date 0 | Date t \<Rightarrow> Date_of_string P (toISOString P t))"

definition reloaded :: "platform \<Rightarrow> Message \<Rightarrow> loaded_msg" where
  "reloaded P m = rebuilt (Message_json P m) (reload_date P (timestamp m))"

subsection \<open>The component state\<close>

record widget =
  isOpen :: bool
  messages :: "Message list"
  inputValue :: string
  isTyping :: bool
  sessionId :: string
  userId :: string
  showQuickReplies :: bool
  currentQuickReplies :: "string list"
  hasShownGreeting :: bool

text \<open>
  The world of one component instance: its state, the storage area, the time at which
  the armed greeting timer is due, the number of agent calls in flight, and whether the
  component is still mounted.
\<close>

record world =
  ui :: widget
  storage :: localStorage
  timer :: "int option"
  pending :: nat
  mounted :: bool

definition initial_widget :: "string \<Rightarrow> string \<Rightarrow> widget" where
  "initial_widget sid uid =
     \<lparr>isOpen = False, messages = [], inputValue = [], isTyping = False,
      sessionId = sid, userId = uid, showQuickReplies = False,
      currentQuickReplies = [], hasShownGreeting = False\<rparr>"

definition snapshot :: "widget \<Rightarrow> ChatState" where
  "snapshot u = \<lparr>cs_messages = messages u, cs_sessionId = sessionId u, cs_userId = userId u\<rparr>"

subsection \<open>Effects\<close>

text \<open>The save effect: \<^verbatim>\<open>if (messages.length > 0) saveChatState(...)\<close>.\<close>

definition save_effect :: "platform \<Rightarrow> world \<Rightarrow> world" where
  "save_effect P w =
     (if messages (ui w) \<noteq> []
      then w\<lparr>storage := saveChatState P (snapshot (ui w)) (storage w)\<rparr>
      else w)"

text \<open>The greeting effect arms the timer; its cleanup clears the timer it armed.\<close>

definition greeting_effect :: "int \<Rightarrow> world \<Rightarrow> world" where
  "greeting_effect t w =
     (if \<not> hasShownGreeting (ui w) \<and> length (messages (ui w)) = 0
      then w\<lparr>timer := Some (t + AUTO_GREETING_DELAY)\<rparr>
      else w)"

definition greeting_cleanup :: "world \<Rightarrow> world" where
  "greeting_cleanup w = w\<lparr>timer := None\<rparr>"

text \<open>
  After a render, an effect runs again when one of its dependencies has changed:
  the save effect on \<^verbatim>\<open>messages\<close>, the greeting effect on \<^verbatim>\<open>hasShownGreeting\<close> and
  \<^verbatim>\<open>messages.length\<close>. \<open>old\<close> is the state of the render before, \<open>t\<close> the time.
  (The identifiers never change after the first render. The only handler that can set
  \<^verbatim>\<open>messages\<close> to a new array equal to the old one is the reset of an empty log, where
  the save effect does nothing.)
\<close>

definition after_render :: "platform \<Rightarrow> int \<Rightarrow> widget \<Rightarrow> world \<Rightarrow> world" where
  "after_render P t old w =
     (let w1 = (if messages (ui w) \<noteq> messages old then save_effect P w else w)
      in if hasShownGreeting (ui w) \<noteq> hasShownGreeting old
            \<or> length (messages (ui w)) \<noteq> length (messages old)
         then greeting_effect t (greeting_cleanup w1)
         else w1)"

subsection \<open>Mounting\<close>

datatype mount_error = Threw js_error | Outside_ChatState

definition restore_quick_replies :: "Message list \<Rightarrow> widget \<Rightarrow> widget" where
  "restore_quick_replies ms u =
     (case find (\<lambda>m. role m = Agent) (rev ms) of
        None \<Rightarrow> u
      | Some lastAgentMsg \<Rightarrow>
          (case suggested_actions lastAgentMsg of
             None \<Rightarrow> u
           | Some acts \<Rightarrow>
               if length acts > 0
               then u\<lparr>currentQuickReplies := acts, showQuickReplies := True\<rparr>
               else u))"

text \<open>The mount effect: the state it asks for, from the state of the first render.\<close>

definition mount_effect :: "platform \<Rightarrow> localStorage \<Rightarrow> widget \<Rightarrow> mount_error + widget" where
  "mount_effect P st u =
     (case loadChatState P st of
        None \<Rightarrow> Inr u
      | Some savedState \<Rightarrow>
          if length (ls_messages savedState) > 0
          then (case as_Messages (ls_messages savedState) of
                  None \<Rightarrow> Inl Outside_ChatState
                | Some ms \<Rightarrow>
                    Inr (restore_quick_replies ms (u\<lparr>messages := ms, hasShownGreeting := True\<rparr>)))
          else Inr u)"

text \<open>
  The first render and what follows it. The state initialisers mint the session
  identifier (\<open>e1\<close>) and read or mint the visitor identifier (\<open>e2\<close>). Then the effects
  run once, in the order of the source, on the initial state: the mount effect asks for
  its state updates, the save effect finds an empty log, the greeting effect arms the
  timer at time \<open>t\<close>. The render with the updated state runs the effects whose
  dependencies changed.
\<close>

definition mount :: "platform \<Rightarrow> env \<Rightarrow> env \<Rightarrow> int \<Rightarrow> localStorage \<Rightarrow> mount_error + world" where
  "mount P e1 e2 t st =
     (case generateUserId e2 st of
        Inl err \<Rightarrow> Inl (Threw err)
      | Inr (uid, st1) \<Rightarrow>
          (let u0 = initial_widget (generateSessionId e1) uid;
               w0 = \<lparr>ui = u0, storage = st1, timer = None, pending = 0, mounted = True\<rparr>
           in case mount_effect P st1 u0 of
                Inl err \<Rightarrow> Inl err
              | Inr u1 \<Rightarrow>
                  Inr (after_render P t u0 ((greeting_effect t (save_effect P w0))\<lparr>ui := u1\<rparr>))))"

subsection \<open>Handlers\<close>

definition handleInputChange :: "string \<Rightarrow> widget \<Rightarrow> widget" where
  "handleInputChange v u = (if length v \<le> MAX_CHAR_LIMIT then u\<lparr>inputValue := v\<rparr> else u)"

definition userMessage :: "env \<Rightarrow> string \<Rightarrow> Message" where
  "userMessage e trimmedText =
     \<lparr>msg_id = generateId e, role = User, content = trimmedText, timestamp = Date (now e),
      suggested_actions = None, lead_qualification = None\<rparr>"

text \<open>
  \<^verbatim>\<open>handleSendMessage\<close> up to its \<^verbatim>\<open>await\<close>: nothing for a text that trims to the
  empty string; otherwise the quick replies are hidden, the user message is appended,
  the input is cleared, the typing flag is set and the agent call is in flight.
\<close>

definition handleSendMessage :: "platform \<Rightarrow> env \<Rightarrow> string \<Rightarrow> world \<Rightarrow> world" where
  "handleSendMessage P e text w =
     (let trimmedText = trim text
      in if trimmedText = [] then w
         else after_render P (now e) (ui w)
                (w\<lparr>ui := (ui w)\<lparr>showQuickReplies := False,
                                 messages := messages (ui w) @ [userMessage e trimmedText],
                                 inputValue := [],
                                 isTyping := True\<rparr>,
                    pending := Suc (pending w)\<rparr>))"

text \<open>
  How the agent call ends: it returns a result, with its \<^verbatim>\<open>success\<close> flag, whether
  the status of the response is \<^verbatim>\<open>'success'\<close>, and the payload; or it throws.
\<close>

datatype agent_outcome = Returned bool bool AgentResult | Thrown

definition agentMessage :: "env \<Rightarrow> AgentResult \<Rightarrow> Message" where
  "agentMessage e agentData =
     \<lparr>msg_id = generateId e, role = Agent,
      content = (if ar_message agentData \<noteq> [] then ar_message agentData else APOLOGY_EMPTY),
      timestamp = Date (now e),
      suggested_actions = ar_suggested_actions agentData,
      lead_qualification = ar_lead_qualification agentData\<rparr>"

definition errorMessage :: "env \<Rightarrow> string \<Rightarrow> Message" where
  "errorMessage e txt =
     \<lparr>msg_id = generateId e, role = Agent, content = txt, timestamp = Date (now e),
      suggested_actions = None, lead_qualification = None\<rparr>"

definition update_quick_replies :: "AgentResult \<Rightarrow> widget \<Rightarrow> widget" where
  "update_quick_replies agentData u =
     (case ar_suggested_actions agentData of
        None \<Rightarrow> u
      | Some acts \<Rightarrow>
          if length acts > 0
          then u\<lparr>currentQuickReplies := acts, showQuickReplies := True\<rparr>
          else u)"

definition agent_update :: "env \<Rightarrow> agent_outcome \<Rightarrow> widget \<Rightarrow> widget" where
  "agent_update e outcome u =
     (case outcome of
        Returned success status_ok agentData \<Rightarrow>
          if success \<and> status_ok
          then update_quick_replies agentData
                 (u\<lparr>isTyping := False, messages := messages u @ [agentMessage e agentData]\<rparr>)
          else u\<lparr>isTyping := False,
                 messages := messages u @ [errorMessage e APOLOGY_PROCESSING]\<rparr>
      | Thrown \<Rightarrow>
          u\<lparr>isTyping := False, messages := messages u @ [errorMessage e APOLOGY_NETWORK]\<rparr>)"

text \<open>\<^verbatim>\<open>handleSendMessage\<close> from its \<^verbatim>\<open>await\<close> on, for one of the calls in flight.\<close>

definition handleSendMessage_resume :: "platform \<Rightarrow> env \<Rightarrow> agent_outcome \<Rightarrow> world \<Rightarrow> world" where
  "handleSendMessage_resume P e outcome w =
     after_render P (now e) (ui w)
       (w\<lparr>ui := agent_update e outcome (ui w), pending := pending w - 1\<rparr>)"

definition handleQuickReply :: "platform \<Rightarrow> env \<Rightarrow> string \<Rightarrow> world \<Rightarrow> world" where
  "handleQuickReply P e action w = handleSendMessage P e action w"

definition handleKeyPress :: "platform \<Rightarrow> env \<Rightarrow> string \<Rightarrow> bool \<Rightarrow> world \<Rightarrow> world" where
  "handleKeyPress P e key shiftKey w =
     (if key = ''Enter'' \<and> \<not> shiftKey then handleSendMessage P e (inputValue (ui w)) w else w)"

text \<open>The reset button of the header.\<close>

definition reset :: "platform \<Rightarrow> env \<Rightarrow> world \<Rightarrow> world" where
  "reset P e w =
     after_render P (now e) (ui w)
       (w\<lparr>ui := (ui w)\<lparr>messages := [], hasShownGreeting := False\<rparr>,
          storage := removeItem (storage w) STORAGE_KEY\<rparr>)"

definition greetingMessage :: "env \<Rightarrow> Message" where
  "greetingMessage e =
     \<lparr>msg_id = generateId e, role = Agent, content = INITIAL_GREETING, timestamp = Date (now e),
      suggested_actions = Some GREETING_ACTIONS, lead_qualification = None\<rparr>"

text \<open>The callback of the greeting timer; the timer is spent once it has run.\<close>

definition greeting_timeout :: "platform \<Rightarrow> env \<Rightarrow> world \<Rightarrow> world" where
  "greeting_timeout P e w =
     after_render P (now e) (ui w)
       (w\<lparr>ui := (ui w)\<lparr>messages := [greetingMessage e],
                        currentQuickReplies := GREETING_ACTIONS,
                        showQuickReplies := True,
                        hasShownGreeting := True\<rparr>,
          timer := None\<rparr>)"

definition unmount :: "world \<Rightarrow> world" where
  "unmount w = (greeting_cleanup w)\<lparr>mounted := False\<rparr>"

subsection \<open>What the component renders\<close>

text \<open>\<^verbatim>\<open>latestQualification\<close>: of the last agent message that has a qualification.\<close>

definition latestQualification :: "Message list \<Rightarrow> LeadQualification option" where
  "latestQualification ms =
     (case find (\<lambda>m. role m = Agent \<and> lead_qualification m \<noteq> None) (rev ms) of
        None \<Rightarrow> None
      | Some m \<Rightarrow> lead_qualification m)"

text \<open>\<^verbatim>\<open>BookingCTA\<close>: whether the component renders its card (it returns \<^verbatim>\<open>null\<close> otherwise).\<close>

definition BookingCTA :: "LeadQualification option \<Rightarrow> bool" where
  "BookingCTA qualification =
     (case qualification of
        None \<Rightarrow> False
      | Some q \<Rightarrow>
          if \<not> is_qualified q then False
          else if \<not> includes_str (toLowerCase (next_action q)) ''book'' then False
          else True)"

text \<open>
  The booking slot of the component. The collapsed component returns the floating button
  and nothing else; the expanded panel has \<^verbatim>\<open>latestQualification && <BookingCTA ... />\<close>.
\<close>

definition booking_prompt :: "widget \<Rightarrow> bool" where
  "booking_prompt u =
     (if \<not> isOpen u then False
      else (case latestQualification (messages u) of
              None \<Rightarrow> False
            | Some q \<Rightarrow> BookingCTA (Some q)))"

text \<open>The quick-reply row of the expanded panel.\<close>

definition quick_replies_shown :: "widget \<Rightarrow> bool" where
  "quick_replies_shown u =
     (showQuickReplies u \<and> length (currentQuickReplies u) > 0 \<and> \<not> isTyping u)"

subsection \<open>Events\<close>

datatype event =
    Open
  | Minimize
  | Reset
  | InputChange string
  | KeyPress string bool
  | ClickSend
  | QuickReply string
  | AgentReturns agent_outcome
  | TimerFires
  | Unmount

text \<open>
  An event can happen when the control it needs is rendered and not disabled: the
  collapsed component renders the floating button only; the input is disabled while the
  agent is typing, the send button also while the input trims to nothing; a quick-reply
  button exists for each current action while the row is shown. An agent call can end
  when one is in flight, the timer can fire when it is armed and due.
\<close>

definition enabled :: "env \<Rightarrow> event \<Rightarrow> world \<Rightarrow> bool" where
  "enabled e ev w =
     (let u = ui w
      in case ev of
           Open \<Rightarrow> \<not> isOpen u
         | Minimize \<Rightarrow> isOpen u
         | Reset \<Rightarrow> isOpen u
         | InputChange v \<Rightarrow> isOpen u \<and> \<not> isTyping u
         | KeyPress key shiftKey \<Rightarrow> isOpen u \<and> \<not> isTyping u
         | ClickSend \<Rightarrow> isOpen u \<and> trim (inputValue u) \<noteq> [] \<and> \<not> isTyping u
         | QuickReply action \<Rightarrow> isOpen u \<and> quick_replies_shown u \<and> action \<in> set (currentQuickReplies u)
         | AgentReturns outcome \<Rightarrow> pending w > 0
         | TimerFires \<Rightarrow> (case timer w of None \<Rightarrow> False | Some due \<Rightarrow> due \<le> now e)
         | Unmount \<Rightarrow> True)"

definition handle :: "platform \<Rightarrow> env \<Rightarrow> event \<Rightarrow> world \<Rightarrow> world" where
  "handle P e ev w =
     (case ev of
        Open \<Rightarrow> w\<lparr>ui := (ui w)\<lparr>isOpen := True\<rparr>\<rparr>
      | Minimize \<Rightarrow> w\<lparr>ui := (ui w)\<lparr>isOpen := False\<rparr>\<rparr>
      | Reset \<Rightarrow> reset P e w
      | InputChange v \<Rightarrow> w\<lparr>ui := handleInputChange v (ui w)\<rparr>
      | KeyPress key shiftKey \<Rightarrow> handleKeyPress P e key shiftKey w
      | ClickSend \<Rightarrow> handleSendMessage P e (inputValue (ui w)) w
      | QuickReply action \<Rightarrow> handleQuickReply P e action w
      | AgentReturns outcome \<Rightarrow> handleSendMessage_resume P e outcome w
      | TimerFires \<Rightarrow> greeting_timeout P e w
      | Unmount \<Rightarrow> unmount w)"

text \<open>One step of a mounted component; an unmounted one takes no event any more.\<close>

definition step :: "platform \<Rightarrow> env \<times> event \<Rightarrow> world \<Rightarrow> world" where
  "step P x w = (if mounted w \<and> enabled (fst x) (snd x) w then handle P (fst x) (snd x) w else w)"

fun run :: "platform \<Rightarrow> (env \<times> event) list \<Rightarrow> world \<Rightarrow> world" where
  "run P [] w = w"
| "run P (x # xs) w = run P xs (step P x w)"

subsection \<open>Observing the greeting\<close>

text \<open>How often the callback of the greeting timer runs in a run of events.\<close>

fun greetings :: "platform \<Rightarrow> (env \<times> event) list \<Rightarrow> world \<Rightarrow> nat" where
  "greetings P [] w = 0"
| "greetings P (x # xs) w =
     (if snd x = TimerFires \<and> mounted w \<and> enabled (fst x) TimerFires w then 1 else 0)
     + greetings P xs (step P x w)"

text \<open>No timer is armed while the greeting flag is set or the log is not empty.\<close>

definition timer_idle :: "world \<Rightarrow> bool" where
  "timer_idle w = ((hasShownGreeting (ui w) \<or> messages (ui w) \<noteq> []) \<longrightarrow> timer w = None)"

text \<open>The log is not empty and no timer is armed.\<close>

definition quiet :: "world \<Rightarrow> bool" where
  "quiet w = (messages (ui w) \<noteq> [] \<and> timer w = None)"

subsection \<open>Example data\<close>

definition ex_env :: "int \<Rightarrow> env" where
  "ex_env t = \<lparr>now = t, rnd = ''k3j9x0a1b''\<rparr>"

definition ex_empty_storage :: localStorage where
  "ex_empty_storage = \<lparr>items = [], quota = 5000000\<rparr>"

text \<open>The storage area of a visitor who has been here before and has no conversation.\<close>

definition ex_storage :: localStorage where
  "ex_storage = \<lparr>items = [(''chat_user_id'', ''user-0-k3j9x0a1b'')], quota = 5000000\<rparr>"

text \<open>An expanded component with an empty log.\<close>

definition ex_world :: world where
  "ex_world =
     \<lparr>ui = (initial_widget ''session-0-k3j9x0a1b'' ''user-0-k3j9x0a1b'')\<lparr>isOpen := True\<rparr>,
      storage = ex_storage, timer = None, pending = 0, mounted = True\<rparr>"

definition ex_qualification :: LeadQualification where
  "ex_qualification =
     \<lparr>is_qualified = True, interest_level = ''high'', next_action = ''Book a consultation''\<rparr>"

definition ex_result :: AgentResult where
  "ex_result =
     \<lparr>ar_message = ''We have a slot on Monday.'',
      ar_lead_qualification = Some ex_qualification,
      ar_suggested_actions = Some [''Book Now'']\<rparr>"

text \<open>An agent message with a qualification, followed by a user message.\<close>

definition ex_log :: "Message list" where
  "ex_log = [agentMessage (ex_env 1000) ex_result, userMessage (ex_env 2000) ''thanks'']"

text \<open>
  A fragment of the platform for the examples. \<^verbatim>\<open>JSON.stringify\<close> and
  \<^verbatim>\<open>toISOString\<close> are printers that agree with the platform on the data of the examples
  (texts that need no escape, whole numbers, times of 1 January 1970); \<^verbatim>\<open>JSON.parse\<close>
  and the \<^verbatim>\<open>Date\<close> constructor are tables of the texts an example reads.
\<close>

definition quote :: "string \<Rightarrow> string" where
  "quote s = [CHR 0x22] @ s @ [CHR 0x22]"

fun commas :: "string list \<Rightarrow> string" where
  "commas [] = []"
| "commas [x] = x"
| "commas (x # y # xs) = x @ '','' @ commas (y # xs)"

fun json_text :: "json \<Rightarrow> string" where
  "json_text JNull = ''null''"
| "json_text (JBool b) = (if b then ''true'' else ''false'')"
| "json_text (JNum r) = int_to_string \<lfloor>r\<rfloor>"
| "json_text (JStr s) = quote s"
| "json_text (JArr xs) = ''['' @ commas (map json_text xs) @ '']''"
| "json_text (JObj fs) =
     ''{'' @ commas (map (\<lambda>kv. quote (fst kv) @ '':'' @ json_text (snd kv)) fs) @ ''}''"

definition pad :: "nat \<Rightarrow> int \<Rightarrow> string" where
  "pad n i = (let s = int_to_string i in replicate (n - length s) CHR ''0'' @ s)"

definition iso_text :: "int \<Rightarrow> string" where
  "iso_text t =
     ''1970-01-01T'' @ pad 2 (t div 3600000 mod 24) @ '':'' @ pad 2 (t div 60000 mod 60) @ '':''
       @ pad 2 (t div 1000 mod 60) @ ''.'' @ pad 3 (t mod 1000) @ ''Z''"

definition ex_platform :: "(string \<times> json) list \<Rightarrow> (string \<times> Date) list \<Rightarrow> platform" where
  "ex_platform texts dates =
     \<lparr>JSON_stringify = json_text,
      JSON_parse = map_of texts,
      toISOString = iso_text,
      Date_of_string = (\<lambda>s. case map_of dates s of None \<Rightarrow> Invalid_Date | Some d \<Rightarrow> d),
      Number_toString = (\<lambda>r. int_to_string \<lfloor>r\<rfloor>)\<rparr>"

definition ex_events :: "(env \<times> event) list" where
  "ex_events =
     [(ex_env 1000, InputChange ''hi''),
      (ex_env 2000, ClickSend),
      (ex_env 3000, AgentReturns (Returned True True ex_result)),
      (ex_env 4000, Reset)]"

text \<open>Stored values: the storage area of the returning visitor with a text under the
  snapshot key.\<close>

definition ex_stored :: "string \<Rightarrow> localStorage" where
  "ex_stored text =
     \<lparr>items = [(''chat_user_id'', ''user-0-k3j9x0a1b''), (''chat_widget_state'', text)],
      quota = 5000000\<rparr>"

text \<open>An object with a \<^verbatim>\<open>messages\<close> array and nothing else; its one message has a role
  and nothing else.\<close>

definition ex_partial :: json where
  "ex_partial = JObj [(''messages'', JArr [JObj [(''role'', JStr ''user'')]])]"

text \<open>An object whose message has a timestamp that is an object with a property named
  \<^verbatim>\<open>toString\<close>.\<close>

definition ex_bad_timestamp :: json where
  "ex_bad_timestamp =
     JObj [(''messages'', JArr [JObj [(''timestamp'', JObj [(''toString'', JNum 1)])]])]"

text \<open>An object without \<^verbatim>\<open>messages\<close>.\<close>

definition ex_no_messages :: json where
  "ex_no_messages = JObj [(''sessionId'', JStr ''session-0-k3j9x0a1b'')]"

text \<open>A snapshot whose message array is empty.\<close>

definition ex_empty_snapshot :: json where
  "ex_empty_snapshot =
     JObj [(''messages'', JArr []),
           (''sessionId'', JStr ''session-0-k3j9x0a1b''),
           (''userId'', JStr ''user-0-k3j9x0a1b'')]"

text \<open>The platform that parses the text of one value, and no other text.\<close>

definition ex_reads :: "json \<Rightarrow> platform" where
  "ex_reads j = ex_platform [(json_text j, j)] []"

text \<open>A quick-reply action of 251 characters, and an agent result that suggests it.\<close>

definition ex_long_label :: string where
  "ex_long_label = replicate 251 CHR ''a''"

definition ex_long_result :: AgentResult where
  "ex_long_result =
     \<lparr>ar_message = ''Choose:'', ar_lead_qualification = None,
      ar_suggested_actions = Some [ex_long_label]\<rparr>"

text \<open>The component of the returning visitor, just mounted at time 0.\<close>

definition ex_mounted :: world where
  "ex_mounted =
     \<lparr>ui = initial_widget ''session-0-k3j9x0a1b'' ''user-0-k3j9x0a1b'', storage = ex_storage,
      timer = Some 5000, pending = 0, mounted = True\<rparr>"

text \<open>A snapshot of the example log.\<close>

definition ex_snapshot :: ChatState where
  "ex_snapshot =
     \<lparr>cs_messages = ex_log, cs_sessionId = ''session-0-k3j9x0a1b'',
      cs_userId = ''user-0-k3j9x0a1b''\<rparr>"

text \<open>The platform that parses the text of that snapshot and reads its two timestamps.\<close>

definition ex_codec :: platform where
  "ex_codec =
     ex_platform
       [(json_text (ChatState_json (ex_platform [] []) ex_snapshot),
         ChatState_json (ex_platform [] []) ex_snapshot)]
       [(iso_text 1000, Date 1000), (iso_text 2000, Date 2000)]"

text \<open>A snapshot whose only message has the invalid date as its timestamp.\<close>

definition ex_undated :: ChatState where
  "ex_undated =
     \<lparr>cs_messages = [(userMessage (ex_env 1000) ''hi'')\<lparr>timestamp := Invalid_Date\<rparr>],
      cs_sessionId = ''session-0-k3j9x0a1b'', cs_userId = ''user-0-k3j9x0a1b''\<rparr>"

text \<open>The snapshot after the visitor has sent \<open>hi\<close> at time 3000.\<close>

definition ex_sent :: ChatState where
  "ex_sent =
     \<lparr>cs_messages = [userMessage (ex_env 3000) ''hi''],
      cs_sessionId = ''session-0-k3j9x0a1b'', cs_userId = ''user-0-k3j9x0a1b''\<rparr>"

text \<open>The platform that parses the text of that snapshot.\<close>

definition ex_sent_codec :: platform where
  "ex_sent_codec = ex_reads (ChatState_json (ex_platform [] []) ex_sent)"

text \<open>The storage area of the returning visitor, with little room left.\<close>

definition ex_tight_storage :: localStorage where
  "ex_tight_storage = \<lparr>items = [(''chat_user_id'', ''user-0-k3j9x0a1b'')], quota = 300\<rparr>"

text \<open>The component mounted on that storage area.\<close>

definition ex_tight_mounted :: world where
  "ex_tight_mounted = ex_mounted\<lparr>storage := ex_tight_storage\<rparr>"

text \<open>The visitor has opened the panel and typed \<open>hi\<close>.\<close>

definition ex_before_send :: world where
  "ex_before_send =
     run ex_sent_codec [(ex_env 1000, Open), (ex_env 2000, InputChange ''hi'')] ex_mounted"

text \<open>Then the visitor sends.\<close>

definition ex_after_send :: world where
  "ex_after_send = step ex_sent_codec (ex_env 3000, ClickSend) ex_before_send"

text \<open>The same on the tight storage area.\<close>

definition ex_tight_sent :: world where
  "ex_tight_sent =
     run ex_sent_codec
       [(ex_env 1000, Open), (ex_env 2000, InputChange ''hi''), (ex_env 3000, ClickSend)]
       ex_tight_mounted"

text \<open>Then the agent answers.\<close>

definition ex_tight_answered :: world where
  "ex_tight_answered =
     step ex_sent_codec (ex_env 4000, AgentReturns (Returned True True ex_result)) ex_tight_sent"

text \<open>An agent result that qualifies the lead and asks to send information.\<close>

definition ex_info_result :: AgentResult where
  "ex_info_result =
     \<lparr>ar_message = ''I will send you our brochure.'',
      ar_lead_qualification =
        Some \<lparr>is_qualified = True, interest_level = ''high'', next_action = ''Send info''\<rparr>,
      ar_suggested_actions = None\<rparr>"

text \<open>The visitor opens the panel and sends \<open>hi\<close>, the agent answers with the given
  result, and the visitor sends \<open>thanks\<close>.\<close>

definition ex_conversation :: "AgentResult \<Rightarrow> (env \<times> event) list" where
  "ex_conversation r =
     [(ex_env 1000, Open), (ex_env 2000, InputChange ''hi''), (ex_env 3000, ClickSend),
      (ex_env 4000, AgentReturns (Returned True True r)),
      (ex_env 5000, InputChange ''thanks''), (ex_env 6000, ClickSend)]"

section \<open>Properties\<close>

subsection \<open>Effects leave the component state alone\<close>

lemma ui_after_render [simp]: "ui (after_render P t old w) = ui w"
  by (simp add: after_render_def save_effect_def greeting_effect_def greeting_cleanup_def Let_def)

lemma pending_after_render [simp]: "pending (after_render P t old w) = pending w"
  by (simp add: after_render_def save_effect_def greeting_effect_def greeting_cleanup_def Let_def)

lemma mounted_after_render [simp]: "mounted (after_render P t old w) = mounted w"
  by (simp add: after_render_def save_effect_def greeting_effect_def greeting_cleanup_def Let_def)

lemma timer_after_render:
  "timer (after_render P t old w) =
     (if hasShownGreeting (ui w) \<noteq> hasShownGreeting old
         \<or> length (messages (ui w)) \<noteq> length (messages old)
      then (if \<not> hasShownGreeting (ui w) \<and> messages (ui w) = []
            then Some (t + AUTO_GREETING_DELAY) else None)
      else timer w)"
  by (simp add: after_render_def save_effect_def greeting_effect_def greeting_cleanup_def Let_def)

lemma storage_after_render:
  "storage (after_render P t old w) =
     (if messages (ui w) \<noteq> messages old \<and> messages (ui w) \<noteq> []
      then saveChatState P (snapshot (ui w)) (storage w)
      else storage w)"
  by (simp add: after_render_def save_effect_def greeting_effect_def greeting_cleanup_def Let_def)

lemma messages_update_quick_replies [simp]: "messages (update_quick_replies d u) = messages u"
  by (simp add: update_quick_replies_def split: option.splits)

lemma messages_agent_update:
  "messages (agent_update e outcome u) =
     messages u @ [case outcome of
                     Returned s ok d \<Rightarrow> if s \<and> ok then agentMessage e d
                                        else errorMessage e APOLOGY_PROCESSING
                   | Thrown \<Rightarrow> errorMessage e APOLOGY_NETWORK]"
  by (cases outcome) (auto simp: agent_update_def)

lemma trim_example: "trim '' hi '' = ''hi'' \<and> trim ''  '' = []"
  by (simp add: trim_def is_space_def)

subsection \<open>Sending a message\<close>

text \<open>
  Claim C4. A text that does not trim to the empty string makes \<^const>\<open>handleSendMessage\<close>
  append exactly one message, the user message with the trimmed text, and leaves one more
  agent call in flight; no agent message is there yet. When the call ends,
  \<^const>\<open>handleSendMessage_resume\<close> appends exactly one agent message: the reply for a
  successful result with a success status, the processing apology for any other result,
  the network apology when the call threw. A text that trims to the empty string changes
  nothing at all.
\<close>

theorem send_appends:
  "(trim text \<noteq> [] \<longrightarrow>
      messages (ui (handleSendMessage P e text w)) = messages (ui w) @ [userMessage e (trim text)]
      \<and> role (userMessage e (trim text)) = User
      \<and> content (userMessage e (trim text)) = trim text
      \<and> pending (handleSendMessage P e text w) = Suc (pending w))
   \<and> messages (ui (handleSendMessage_resume P e' (Returned True True d) w'))
       = messages (ui w') @ [agentMessage e' d]
   \<and> (\<not> (s \<and> ok) \<longrightarrow>
        messages (ui (handleSendMessage_resume P e' (Returned s ok d) w'))
          = messages (ui w') @ [errorMessage e' APOLOGY_PROCESSING])
   \<and> messages (ui (handleSendMessage_resume P e' Thrown w'))
       = messages (ui w') @ [errorMessage e' APOLOGY_NETWORK]
   \<and> role (agentMessage e' d) = Agent
   \<and> role (errorMessage e' txt) = Agent
   \<and> (trim text = [] \<longrightarrow> handleSendMessage P e text w = w)"
proof -
  have user: "trim text \<noteq> [] \<longrightarrow>
      messages (ui (handleSendMessage P e text w)) = messages (ui w) @ [userMessage e (trim text)]
      \<and> role (userMessage e (trim text)) = User
      \<and> content (userMessage e (trim text)) = trim text
      \<and> pending (handleSendMessage P e text w) = Suc (pending w)"
    by (simp add: handleSendMessage_def Let_def userMessage_def)
  have agent: "messages (ui (handleSendMessage_resume P e' outcome w'))
      = messages (ui w') @ [case outcome of
                     Returned s ok d \<Rightarrow> if s \<and> ok then agentMessage e' d
                                        else errorMessage e' APOLOGY_PROCESSING
                   | Thrown \<Rightarrow> errorMessage e' APOLOGY_NETWORK]" for outcome
    by (simp add: handleSendMessage_resume_def messages_agent_update)
  have roles: "role (agentMessage e' d) = Agent \<and> role (errorMessage e' txt) = Agent"
    by (simp add: agentMessage_def errorMessage_def)
  have noop: "trim text = [] \<longrightarrow> handleSendMessage P e text w = w"
    by (simp add: handleSendMessage_def)
  from agent [of "Returned True True d"] agent [of "Returned s ok d"] agent [of Thrown]
  have "messages (ui (handleSendMessage_resume P e' (Returned True True d) w'))
       = messages (ui w') @ [agentMessage e' d]
   \<and> (\<not> (s \<and> ok) \<longrightarrow>
        messages (ui (handleSendMessage_resume P e' (Returned s ok d) w'))
          = messages (ui w') @ [errorMessage e' APOLOGY_PROCESSING])
   \<and> messages (ui (handleSendMessage_resume P e' Thrown w'))
       = messages (ui w') @ [errorMessage e' APOLOGY_NETWORK]"
    by simp
  with user roles noop show ?thesis by blast
qed

theorem send_appends_witness:
  "trim '' hi '' \<noteq> []
   \<and> messages (ui (handleSendMessage (ex_platform [] []) (ex_env 1000) '' hi '' ex_world))
       = messages (ui ex_world) @ [userMessage (ex_env 1000) (trim '' hi '')]
   \<and> pending (handleSendMessage (ex_platform [] []) (ex_env 1000) '' hi '' ex_world) = Suc (pending ex_world)
   \<and> \<not> (True \<and> False)
   \<and> messages (ui (handleSendMessage_resume (ex_platform [] []) (ex_env 2000) (Returned True False ex_result) ex_world))
       = messages (ui ex_world) @ [errorMessage (ex_env 2000) APOLOGY_PROCESSING]
   \<and> trim ''  '' = []
   \<and> handleSendMessage (ex_platform [] []) (ex_env 1000) ''  '' ex_world = ex_world"
  using send_appends [of "'' hi ''" "ex_platform [] []" "ex_env 1000" ex_world "ex_env 2000"
        ex_result ex_world True False]
    send_appends [of "''  ''" "ex_platform [] []" "ex_env 1000" ex_world "ex_env 2000"
        ex_result ex_world True False]
    trim_example
  by simp

subsection \<open>The latest qualification\<close>

lemma latestQualification_Nil [simp]: "latestQualification [] = None"
  by (simp add: latestQualification_def)

lemma latestQualification_snoc:
  "latestQualification (ms @ [m]) =
     (if role m = Agent \<and> lead_qualification m \<noteq> None then lead_qualification m
      else latestQualification ms)"
  by (auto simp: latestQualification_def)

text \<open>
  The latest qualification is \<open>q\<close> exactly when the log splits at an agent message that
  carries \<open>q\<close> and no later message is an agent message with a qualification.
\<close>

lemma latestQualification_Some_iff:
  "latestQualification ms = Some q \<longleftrightarrow>
     (\<exists>pre m post. ms = pre @ m # post \<and> role m = Agent \<and> lead_qualification m = Some q
        \<and> (\<forall>m' \<in> set post. \<not> (role m' = Agent \<and> lead_qualification m' \<noteq> None)))"
proof (induction ms rule: rev_induct)
  case Nil
  then show ?case by simp
next
  case (snoc x xs)
  show ?case
  proof (cases "role x = Agent \<and> lead_qualification x \<noteq> None")
    case True
    have "(\<exists>pre m post. xs @ [x] = pre @ m # post \<and> role m = Agent \<and> lead_qualification m = Some q
        \<and> (\<forall>m' \<in> set post. \<not> (role m' = Agent \<and> lead_qualification m' \<noteq> None)))
      \<longleftrightarrow> lead_qualification x = Some q" (is "?L \<longleftrightarrow> ?R")
    proof
      assume ?L
      then obtain pre m post where *: "xs @ [x] = pre @ m # post" "role m = Agent"
        "lead_qualification m = Some q"
        "\<forall>m' \<in> set post. \<not> (role m' = Agent \<and> lead_qualification m' \<noteq> None)" by blast
      show ?R
      proof (cases post rule: rev_cases)
        case Nil
        with * show ?thesis by simp
      next
        case (snoc ys y)
        with *(1) have "y = x" by simp
        with snoc *(4) True show ?thesis by simp
      qed
    next
      assume ?R
      with True have "xs @ [x] = xs @ x # [] \<and> role x = Agent \<and> lead_qualification x = Some q
        \<and> (\<forall>m' \<in> set []. \<not> (role m' = Agent \<and> lead_qualification m' \<noteq> None))" by simp
      then show ?L by blast
    qed
    moreover from True have "latestQualification (xs @ [x]) = lead_qualification x"
      by (simp add: latestQualification_snoc)
    ultimately show ?thesis by (simp only:)
  next
    case False
    have "(\<exists>pre m post. xs @ [x] = pre @ m # post \<and> role m = Agent \<and> lead_qualification m = Some q
        \<and> (\<forall>m' \<in> set post. \<not> (role m' = Agent \<and> lead_qualification m' \<noteq> None)))
      \<longleftrightarrow> (\<exists>pre m post. xs = pre @ m # post \<and> role m = Agent \<and> lead_qualification m = Some q
        \<and> (\<forall>m' \<in> set post. \<not> (role m' = Agent \<and> lead_qualification m' \<noteq> None)))"
      (is "?L \<longleftrightarrow> ?R")
    proof
      assume ?L
      then obtain pre m post where *: "xs @ [x] = pre @ m # post" "role m = Agent"
        "lead_qualification m = Some q"
        "\<forall>m' \<in> set post. \<not> (role m' = Agent \<and> lead_qualification m' \<noteq> None)" by blast
      show ?R
      proof (cases post rule: rev_cases)
        case Nil
        with * False show ?thesis by auto
      next
        case (snoc ys y)
        with *(1) have "xs = pre @ m # ys" by simp
        moreover from snoc *(4) have "\<forall>m' \<in> set ys. \<not> (role m' = Agent \<and> lead_qualification m' \<noteq> None)"
          by simp
        ultimately show ?thesis using *(2,3) by blast
      qed
    next
      assume ?R
      then obtain pre m post where *: "xs = pre @ m # post" "role m = Agent"
        "lead_qualification m = Some q"
        "\<forall>m' \<in> set post. \<not> (role m' = Agent \<and> lead_qualification m' \<noteq> None)" by blast
      from *(1) have "xs @ [x] = pre @ m # (post @ [x])" by simp
      moreover from *(4) False
      have "\<forall>m' \<in> set (post @ [x]). \<not> (role m' = Agent \<and> lead_qualification m' \<noteq> None)"
        by auto
      ultimately show ?L using *(2,3) by blast
    qed
    moreover from False have "latestQualification (xs @ [x]) = latestQualification xs"
      by (auto simp: latestQualification_snoc)
    ultimately show ?thesis using snoc.IH by (simp only:)
  qed
qed

text \<open>\<^const>\<open>includes_str\<close> is the substring test.\<close>

lemma includes_str_sublist: "includes_str s t \<longleftrightarrow> sublist t s"
  by (induction s) (auto simp: sublist_Cons_right)

subsection \<open>The storage area, key by key\<close>

lemma keys_differ [simp]: "USER_ID_KEY \<noteq> STORAGE_KEY" "STORAGE_KEY \<noteq> USER_ID_KEY"
  by (simp_all add: USER_ID_KEY_def STORAGE_KEY_def)

lemma getItem_removeItem: "getItem (removeItem st k) k' = (if k' = k then None else getItem st k')"
  by (simp add: getItem_def removeItem_def delete_conv')

lemma getItem_setItem:
  "setItem st k v = Inr st' \<Longrightarrow> getItem st' k' = (if k' = k then Some v else getItem st k')"
  by (auto simp: getItem_def setItem_def Let_def update_conv' split: if_splits)

lemma getItem_saveChatState_other:
  "k \<noteq> STORAGE_KEY \<Longrightarrow> getItem (saveChatState P s st) k = getItem st k"
  by (auto simp: saveChatState_def getItem_setItem split: sum.splits)

lemma getItem_after_render_other:
  "k \<noteq> STORAGE_KEY \<Longrightarrow> getItem (storage (after_render P t old w)) k = getItem (storage w) k"
  by (simp add: storage_after_render getItem_saveChatState_other)

lemma getItem_handle_other:
  "k \<noteq> STORAGE_KEY \<Longrightarrow> getItem (storage (handle P e ev w)) k = getItem (storage w) k"
  by (cases ev)
     (simp_all add: handle_def reset_def handleKeyPress_def handleSendMessage_def
       handleQuickReply_def handleSendMessage_resume_def greeting_timeout_def unmount_def
       greeting_cleanup_def getItem_after_render_other getItem_removeItem Let_def)

lemma getItem_step_other:
  "k \<noteq> STORAGE_KEY \<Longrightarrow> getItem (storage (step P x w)) k = getItem (storage w) k"
  by (simp add: step_def getItem_handle_other)

lemma getItem_run_other:
  "k \<noteq> STORAGE_KEY \<Longrightarrow> getItem (storage (run P xs w)) k = getItem (storage w) k"
  by (induction xs arbitrary: w) (simp_all add: getItem_step_other)

lemma generateUserId_stored:
  "getItem st USER_ID_KEY = Some u \<Longrightarrow> u \<noteq> [] \<Longrightarrow> generateUserId e st = Inr (u, st)"
  by (simp add: generateUserId_def)

text \<open>The identifier that \<^const>\<open>generateUserId\<close> returns is stored, and is not empty.\<close>

lemma generateUserId_result:
  "generateUserId e st = Inr (u, st') \<Longrightarrow> getItem st' USER_ID_KEY = Some u \<and> u \<noteq> []"
  by (auto simp: generateUserId_def Let_def getItem_setItem split: option.splits if_splits sum.splits)

lemma generateUserId_other:
  "generateUserId e st = Inr (u, st') \<Longrightarrow> k \<noteq> USER_ID_KEY \<Longrightarrow> getItem st' k = getItem st k"
  by (auto simp: generateUserId_def Let_def getItem_setItem split: option.splits if_splits sum.splits)

lemma userId_restore_quick_replies [simp]: "userId (restore_quick_replies ms u) = userId u"
  by (simp add: restore_quick_replies_def split: option.splits)

lemma mount_userId:
  assumes "mount P e1 e2 t st = Inr w"
  shows "\<exists>st1. generateUserId e2 st = Inr (userId (ui w), st1)
           \<and> getItem (storage w) USER_ID_KEY = getItem st1 USER_ID_KEY"
proof -
  from assms obtain uid st1 where g: "generateUserId e2 st = Inr (uid, st1)"
    by (auto simp: mount_def split: sum.splits)
  with assms obtain u1 where u1: "mount_effect P st1 (initial_widget (generateSessionId e1) uid) = Inr u1"
    and w: "w = after_render P t (initial_widget (generateSessionId e1) uid)
                 ((greeting_effect t (save_effect P
                     \<lparr>ui = initial_widget (generateSessionId e1) uid, storage = st1, timer = None,
                      pending = 0, mounted = True\<rparr>))\<lparr>ui := u1\<rparr>)"
    by (auto simp: mount_def Let_def split: sum.splits)
  from u1 have "userId u1 = uid"
    by (auto simp: mount_effect_def initial_widget_def split: option.splits if_splits)
  moreover from w have "getItem (storage w) USER_ID_KEY = getItem st1 USER_ID_KEY"
    by (simp add: getItem_after_render_other greeting_effect_def save_effect_def initial_widget_def)
  ultimately show ?thesis using g w by simp
qed

subsection \<open>Examples, evaluated\<close>

lemma now_ex_env [simp]: "now (ex_env t) = t"
  by (simp add: ex_env_def)

lemma ex_ids:
  "generateId (ex_env 0) = ''0-k3j9x0a1b''"
  "generateId (ex_env 1000) = ''1000-k3j9x0a1b''"
  "generateId (ex_env 5000) = ''5000-k3j9x0a1b''"
  by (simp_all add: generateId_def ex_env_def int_to_string_def nat_to_string.simps digit_char_def)

lemma ex_generateUserId:
  "generateUserId (ex_env 0) ex_storage = Inr (''user-0-k3j9x0a1b'', ex_storage)"
  by (simp add: generateUserId_def getItem_def ex_storage_def USER_ID_KEY_def)

lemma ex_load_none: "loadChatState P ex_storage = None"
  by (simp add: loadChatState_def getItem_def ex_storage_def STORAGE_KEY_def)

text \<open>A returning visitor without a conversation: the component mounts with an empty log
  and the greeting timer armed.\<close>

lemma ex_mount:
  "mount P (ex_env 0) (ex_env 0) 0 ex_storage =
     Inr ex_mounted"
  by (simp add: mount_def ex_generateUserId ex_load_none mount_effect_def Let_def save_effect_def
      greeting_effect_def after_render_def initial_widget_def AUTO_GREETING_DELAY_def
      generateSessionId_def ex_ids ex_mounted_def)

subsection \<open>Reset\<close>

text \<open>
  Claim C2, as the code has it. From every state, the reset leaves the log empty, no
  snapshot under the storage key and the greeting flag cleared. It does not touch the
  quick replies: the flag that shows them and the current actions stay as they were.
\<close>

theorem reset_result:
  "messages (ui (reset P e w)) = []
   \<and> getItem (storage (reset P e w)) STORAGE_KEY = None
   \<and> \<not> hasShownGreeting (ui (reset P e w))
   \<and> showQuickReplies (ui (reset P e w)) = showQuickReplies (ui w)
   \<and> currentQuickReplies (ui (reset P e w)) = currentQuickReplies (ui w)
   \<and> isTyping (ui (reset P e w)) = isTyping (ui w)"
  by (simp add: reset_def storage_after_render getItem_removeItem)

text \<open>
  The claim as stated fails: a new visitor lets the greeting appear, opens the panel and
  resets. The log is empty, and the four quick replies of the greeting are still shown.
\<close>

theorem reset_quick_replies_counterexample:
  "\<exists>w0. mount (ex_platform [] []) (ex_env 0) (ex_env 0) 0 ex_storage = Inr w0
     \<and> messages (ui (run (ex_platform [] [])
          [(ex_env 5000, TimerFires), (ex_env 6000, Open), (ex_env 7000, Reset)] w0)) = []
     \<and> quick_replies_shown (ui (run (ex_platform [] [])
          [(ex_env 5000, TimerFires), (ex_env 6000, Open), (ex_env 7000, Reset)] w0))
     \<and> currentQuickReplies (ui (run (ex_platform [] [])
          [(ex_env 5000, TimerFires), (ex_env 6000, Open), (ex_env 7000, Reset)] w0))
        = GREETING_ACTIONS"
proof -
  let ?start = ex_mounted
  let ?w = "run (ex_platform [] [])
              [(ex_env 5000, TimerFires), (ex_env 6000, Open), (ex_env 7000, Reset)] ?start"
  have "mount (ex_platform [] []) (ex_env 0) (ex_env 0) 0 ex_storage = Inr ?start"
    by (rule ex_mount)
  moreover have "messages (ui ?w) = [] \<and> quick_replies_shown (ui ?w)
      \<and> currentQuickReplies (ui ?w) = GREETING_ACTIONS"
    by (simp add: step_def enabled_def handle_def greeting_timeout_def reset_def
        initial_widget_def quick_replies_shown_def GREETING_ACTIONS_def ex_mounted_def)
  ultimately show ?thesis by blast
qed

subsection \<open>The visitor identifier\<close>

text \<open>
  Claim C9. Once the visitor identifier \<open>u\<close> is stored under its key, it stays there
  through every run of events of the component; the getter then returns \<open>u\<close> and leaves
  the storage area as it is; a snapshot save keeps it; the reset removes the snapshot key
  and no other key; and a component mounted later on that storage area has \<open>u\<close> as its
  visitor identifier.
\<close>

theorem visitor_id_frame:
  assumes "getItem (storage w) USER_ID_KEY = Some u" and "u \<noteq> []"
  shows "getItem (storage (run P xs w)) USER_ID_KEY = Some u
   \<and> generateUserId e (storage (run P xs w)) = Inr (u, storage (run P xs w))
   \<and> getItem (saveChatState P s (storage w)) USER_ID_KEY = Some u
   \<and> getItem (storage (reset P e w)) USER_ID_KEY = Some u
   \<and> getItem (storage (reset P e w)) STORAGE_KEY = None
   \<and> (\<forall>k. k \<noteq> STORAGE_KEY \<longrightarrow> getItem (storage (reset P e w)) k = getItem (storage w) k)
   \<and> (\<forall>w'. mount P e1 e2 t (storage (run P xs w)) = Inr w' \<longrightarrow>
          userId (ui w') = u \<and> getItem (storage w') USER_ID_KEY = Some u)"
proof -
  have run: "getItem (storage (run P xs w)) USER_ID_KEY = Some u"
    using assms by (simp add: getItem_run_other)
  with assms(2) have getter: "generateUserId e' (storage (run P xs w)) = Inr (u, storage (run P xs w))" for e'
    by (simp add: generateUserId_stored)
  have save: "getItem (saveChatState P s (storage w)) USER_ID_KEY = Some u"
    using assms by (simp add: getItem_saveChatState_other)
  have reset: "\<forall>k. k \<noteq> STORAGE_KEY \<longrightarrow> getItem (storage (reset P e w)) k = getItem (storage w) k"
    using getItem_handle_other [of _ P e Reset w] by (simp add: handle_def)
  with assms have reset_id: "getItem (storage (reset P e w)) USER_ID_KEY = Some u" by simp
  have gone: "getItem (storage (reset P e w)) STORAGE_KEY = None"
    by (simp add: reset_def storage_after_render getItem_removeItem)
  have "userId (ui w') = u \<and> getItem (storage w') USER_ID_KEY = Some u"
    if "mount P e1 e2 t (storage (run P xs w)) = Inr w'" for w'
    using mount_userId [OF that] getter [of e2] run by auto
  with run getter save reset reset_id gone show ?thesis by blast
qed

text \<open>A new visitor: the identifier is minted and stored.\<close>

lemma ex_mint:
  "generateUserId (ex_env 0) ex_empty_storage = Inr (''user-0-k3j9x0a1b'', ex_storage)"
  by (simp add: generateUserId_def getItem_def setItem_def ex_empty_storage_def ex_storage_def
      USER_ID_KEY_def ex_ids area_size_def Let_def)

theorem visitor_id_frame_witness:
  "generateUserId (ex_env 0) ex_empty_storage = Inr (''user-0-k3j9x0a1b'', ex_storage)
   \<and> getItem (storage ex_world) USER_ID_KEY = Some ''user-0-k3j9x0a1b''
   \<and> ''user-0-k3j9x0a1b'' \<noteq> []
   \<and> getItem (storage (run (ex_platform [] []) ex_events ex_world)) USER_ID_KEY
       = Some ''user-0-k3j9x0a1b''
   \<and> generateUserId (ex_env 9000) (storage (run (ex_platform [] []) ex_events ex_world))
       = Inr (''user-0-k3j9x0a1b'', storage (run (ex_platform [] []) ex_events ex_world))
   \<and> getItem (storage (reset (ex_platform [] []) (ex_env 9000) ex_world)) STORAGE_KEY = None"
proof -
  have stored: "getItem (storage ex_world) USER_ID_KEY = Some ''user-0-k3j9x0a1b''"
    by (simp add: ex_world_def ex_storage_def getItem_def USER_ID_KEY_def)
  have nonempty: "''user-0-k3j9x0a1b'' \<noteq> []" by simp
  from visitor_id_frame [OF stored nonempty, of "ex_platform [] []" ex_events "ex_env 9000"] stored
    ex_mint
  show ?thesis by simp
qed

subsection \<open>Loading\<close>

lemma rehydrate_all_ok:
  assumes "JNull \<notin> set ms"
    and "map (\<lambda>m. new_Date P (get_prop m ''timestamp'')) ms = map Inr ds"
  shows "rehydrate_all P ms = Inr (map2 rebuilt ms ds)"
  using assms
proof (induction ms arbitrary: ds)
  case Nil
  then show ?case by simp
next
  case (Cons m ms)
  from Cons.prems(2) obtain d ds' where ds: "ds = d # ds'"
    by (cases ds) auto
  with Cons.prems have "new_Date P (get_prop m ''timestamp'') = Inr d"
    and "map (\<lambda>m. new_Date P (get_prop m ''timestamp'')) ms = map Inr ds'"
    and "m \<noteq> JNull" and "JNull \<notin> set ms"
    by auto
  with Cons.IH [of ds'] show ?case
    by (simp add: ds rehydrate_def)
qed

lemma rehydrate_all_throws:
  assumes "m \<in> set ms"
    and "m = JNull \<or> new_Date P (get_prop m ''timestamp'') = Inl err"
  shows "\<exists>err'. rehydrate_all P ms = Inl err'"
  using assms
  by (induction ms) (auto simp: rehydrate_def split: sum.splits)

lemma rehydrate_all_Inr_D:
  assumes "rehydrate_all P ms = Inr lms"
  shows "JNull \<notin> set ms
    \<and> (\<exists>ds. map (\<lambda>m. new_Date P (get_prop m ''timestamp'')) ms = map Inr ds
            \<and> lms = map2 rebuilt ms ds)"
  using assms
proof (induction ms arbitrary: lms)
  case Nil
  then show ?case by simp
next
  case (Cons m ms)
  from Cons.prems obtain d lms' where m: "m \<noteq> JNull"
    and d: "new_Date P (get_prop m ''timestamp'') = Inr d"
    and rest: "rehydrate_all P ms = Inr lms'" and lms: "lms = rebuilt m d # lms'"
    by (auto simp: rehydrate_def split: sum.splits if_splits)
  from Cons.IH [OF rest] obtain ds where "JNull \<notin> set ms"
    and "map (\<lambda>m. new_Date P (get_prop m ''timestamp'')) ms = map Inr ds"
    and "lms' = map2 rebuilt ms ds"
    by blast
  with m d lms show ?case
    by (intro conjI exI [of _ "d # ds"]) simp_all
qed

lemma parse_state_ok:
  assumes "JSON_parse P saved = Some parsed"
    and "get_prop parsed ''messages'' = Some (JArr ms)"
    and "JNull \<notin> set ms"
    and "map (\<lambda>m. new_Date P (get_prop m ''timestamp'')) ms = map Inr ds"
  shows "parse_state P saved =
           Inr \<lparr>ls_messages = map2 rebuilt ms ds,
                ls_fields = AList.delete ''messages'' (spread parsed)\<rparr>"
  using assms by (simp add: parse_state_def rehydrate_all_ok)

lemma parse_state_Inr_D:
  assumes "parse_state P saved = Inr s"
  shows "\<exists>parsed ms ds. JSON_parse P saved = Some parsed
    \<and> get_prop parsed ''messages'' = Some (JArr ms) \<and> JNull \<notin> set ms
    \<and> map (\<lambda>m. new_Date P (get_prop m ''timestamp'')) ms = map Inr ds
    \<and> s = \<lparr>ls_messages = map2 rebuilt ms ds,
            ls_fields = AList.delete ''messages'' (spread parsed)\<rparr>"
proof -
  from assms obtain parsed ms lms where p: "JSON_parse P saved = Some parsed"
    and g: "get_prop parsed ''messages'' = Some (JArr ms)"
    and r: "rehydrate_all P ms = Inr lms"
    and s: "s = \<lparr>ls_messages = lms, ls_fields = AList.delete ''messages'' (spread parsed)\<rparr>"
    by (auto simp: parse_state_def split: option.splits json.splits sum.splits)
  from rehydrate_all_Inr_D [OF r] p g s show ?thesis by blast
qed

lemma parse_state_throws:
  "JSON_parse P saved = None \<Longrightarrow> \<exists>err. parse_state P saved = Inl err"
  "JSON_parse P saved = Some parsed \<Longrightarrow> \<forall>ms. get_prop parsed ''messages'' \<noteq> Some (JArr ms)
     \<Longrightarrow> \<exists>err. parse_state P saved = Inl err"
  "JSON_parse P saved = Some parsed \<Longrightarrow> get_prop parsed ''messages'' = Some (JArr ms)
     \<Longrightarrow> m \<in> set ms \<Longrightarrow> m = JNull \<or> new_Date P (get_prop m ''timestamp'') = Inl e
     \<Longrightarrow> \<exists>err. parse_state P saved = Inl err"
proof -
  show "JSON_parse P saved = None \<Longrightarrow> \<exists>err. parse_state P saved = Inl err"
    by (simp add: parse_state_def)
  show "JSON_parse P saved = Some parsed \<Longrightarrow> \<forall>ms. get_prop parsed ''messages'' \<noteq> Some (JArr ms)
     \<Longrightarrow> \<exists>err. parse_state P saved = Inl err"
    by (auto simp: parse_state_def split: option.splits json.splits)
  assume "JSON_parse P saved = Some parsed" "get_prop parsed ''messages'' = Some (JArr ms)"
    "m \<in> set ms" "m = JNull \<or> new_Date P (get_prop m ''timestamp'') = Inl e"
  with rehydrate_all_throws [of m ms P e] show "\<exists>err. parse_state P saved = Inl err"
    by (auto simp: parse_state_def)
qed

lemma join_elements_ok:
  "(\<exists>s. join_elements N xs = Inr s) \<longleftrightarrow> (\<forall>x \<in> set xs. \<exists>s. element_string N x = Inr s)"
proof (induction xs rule: induct_list012)
  case 1
  show ?case by simp
next
  case (2 x)
  show ?case by simp
next
  case (3 x y zs)
  then show ?case by (auto split: sum.splits)
qed

lemma new_Date_element:
  "(\<exists>d. new_Date P (Some x) = Inr d) \<longleftrightarrow> (\<exists>s. element_string (Number_toString P) x = Inr s)"
  by (cases x) (auto simp: new_Date_def split: sum.splits)

lemma new_Date_primitive:
  "(\<forall>fs. v \<noteq> Some (JObj fs)) \<and> (\<forall>xs. v \<noteq> Some (JArr xs)) \<longrightarrow> (\<exists>d. new_Date P v = Inr d)"
  by (auto simp: new_Date_def split: option.splits json.splits)

lemma new_Date_object:
  "(\<exists>d. new_Date P (Some (JObj fs)) = Inr d) \<longleftrightarrow> ''toString'' \<notin> fst ` set fs"
  by (auto simp: new_Date_def object_string_def)

lemma new_Date_array:
  "(\<exists>d. new_Date P (Some (JArr xs)) = Inr d)
     \<longleftrightarrow> (\<forall>x \<in> set xs. \<exists>d. new_Date P (Some x) = Inr d)"
proof -
  have "(\<exists>d. new_Date P (Some (JArr xs)) = Inr d)
      \<longleftrightarrow> (\<exists>s. join_elements (Number_toString P) xs = Inr s)"
    by (auto simp: new_Date_def split: sum.splits)
  then show ?thesis
    by (simp only: join_elements_ok new_Date_element)
qed

text \<open>
  Claim C7, as the code has it. \<^const>\<open>loadChatState\<close> is total: every exception of its
  body is a \<open>None\<close>. It returns \<open>None\<close> when there is no stored text, when the text is
  empty, when the text does not parse, when the parsed value is not an object whose
  \<^verbatim>\<open>messages\<close> is an array, when that array has a \<^verbatim>\<open>null\<close> element, and when the
  \<^verbatim>\<open>Date\<close> constructor throws on the \<^verbatim>\<open>timestamp\<close> of an element. In every other case,
  and in no other, it returns a snapshot: the parsed value with each message rebuilt,
  whatever else is missing (the identifiers, the fields of a message, a timestamp, which
  becomes the invalid date). The \<^verbatim>\<open>Date\<close> constructor does not throw on a missing
  timestamp, \<^verbatim>\<open>null\<close>, a boolean, a number or a string; on an object it throws when
  the object has a property named \<^verbatim>\<open>toString\<close>; on an array it throws when it throws
  on an element.
\<close>

theorem loadChatState_cases:
  "(getItem st STORAGE_KEY = None \<longrightarrow> loadChatState P st = None)
   \<and> (getItem st STORAGE_KEY = Some [] \<longrightarrow> loadChatState P st = None)
   \<and> (getItem st STORAGE_KEY = Some saved \<and> JSON_parse P saved = None \<longrightarrow>
        loadChatState P st = None)
   \<and> (getItem st STORAGE_KEY = Some saved \<and> JSON_parse P saved = Some parsed
        \<and> (\<forall>ms. get_prop parsed ''messages'' \<noteq> Some (JArr ms)) \<longrightarrow>
        loadChatState P st = None)
   \<and> (getItem st STORAGE_KEY = Some saved \<and> JSON_parse P saved = Some parsed
        \<and> get_prop parsed ''messages'' = Some (JArr ms) \<and> JNull \<in> set ms \<longrightarrow>
        loadChatState P st = None)
   \<and> (getItem st STORAGE_KEY = Some saved \<and> JSON_parse P saved = Some parsed
        \<and> get_prop parsed ''messages'' = Some (JArr ms)
        \<and> m \<in> set ms \<and> new_Date P (get_prop m ''timestamp'') = Inl err \<longrightarrow>
        loadChatState P st = None)
   \<and> (getItem st STORAGE_KEY = Some saved \<and> saved \<noteq> [] \<and> JSON_parse P saved = Some parsed
        \<and> get_prop parsed ''messages'' = Some (JArr ms) \<and> JNull \<notin> set ms
        \<and> map (\<lambda>m. new_Date P (get_prop m ''timestamp'')) ms = map Inr ds \<longrightarrow>
        loadChatState P st =
          Some \<lparr>ls_messages = map2 rebuilt ms ds,
                ls_fields = AList.delete ''messages'' (spread parsed)\<rparr>)
   \<and> (loadChatState P st = Some s \<longrightarrow>
        (\<exists>saved' parsed' ms' ds'.
           getItem st STORAGE_KEY = Some saved' \<and> saved' \<noteq> []
           \<and> JSON_parse P saved' = Some parsed'
           \<and> get_prop parsed' ''messages'' = Some (JArr ms') \<and> JNull \<notin> set ms'
           \<and> map (\<lambda>m. new_Date P (get_prop m ''timestamp'')) ms' = map Inr ds'
           \<and> s = \<lparr>ls_messages = map2 rebuilt ms' ds',
                   ls_fields = AList.delete ''messages'' (spread parsed')\<rparr>))
   \<and> ((\<forall>fs. v \<noteq> Some (JObj fs)) \<and> (\<forall>xs. v \<noteq> Some (JArr xs)) \<longrightarrow> (\<exists>d. new_Date P v = Inr d))
   \<and> ((\<exists>d. new_Date P (Some (JObj fs)) = Inr d) \<longleftrightarrow> ''toString'' \<notin> fst ` set fs)
   \<and> ((\<exists>d. new_Date P (Some (JArr xs)) = Inr d)
        \<longleftrightarrow> (\<forall>x \<in> set xs. \<exists>d. new_Date P (Some x) = Inr d))"
proof -
  have absent: "getItem st STORAGE_KEY = None \<longrightarrow> loadChatState P st = None"
    and empty: "getItem st STORAGE_KEY = Some [] \<longrightarrow> loadChatState P st = None"
    by (simp_all add: loadChatState_def)
  have thrown: "loadChatState P st = None"
    if "getItem st STORAGE_KEY = Some saved" "\<exists>err. parse_state P saved = Inl err"
    using that by (auto simp: loadChatState_def)
  have malformed: "getItem st STORAGE_KEY = Some saved \<and> JSON_parse P saved = None \<longrightarrow>
        loadChatState P st = None"
    using thrown parse_state_throws(1) [of P saved] by blast
  have no_array: "getItem st STORAGE_KEY = Some saved \<and> JSON_parse P saved = Some parsed
        \<and> (\<forall>ms. get_prop parsed ''messages'' \<noteq> Some (JArr ms)) \<longrightarrow>
        loadChatState P st = None"
    using thrown parse_state_throws(2) [of P saved parsed] by blast
  have null: "getItem st STORAGE_KEY = Some saved \<and> JSON_parse P saved = Some parsed
        \<and> get_prop parsed ''messages'' = Some (JArr ms) \<and> JNull \<in> set ms \<longrightarrow>
        loadChatState P st = None"
    using thrown parse_state_throws(3) [of P saved parsed ms JNull] by blast
  have date: "getItem st STORAGE_KEY = Some saved \<and> JSON_parse P saved = Some parsed
        \<and> get_prop parsed ''messages'' = Some (JArr ms)
        \<and> m \<in> set ms \<and> new_Date P (get_prop m ''timestamp'') = Inl err \<longrightarrow>
        loadChatState P st = None"
    using thrown parse_state_throws(3) [of P saved parsed ms m err] by blast
  have loaded: "getItem st STORAGE_KEY = Some saved \<and> saved \<noteq> [] \<and> JSON_parse P saved = Some parsed
        \<and> get_prop parsed ''messages'' = Some (JArr ms) \<and> JNull \<notin> set ms
        \<and> map (\<lambda>m. new_Date P (get_prop m ''timestamp'')) ms = map Inr ds \<longrightarrow>
        loadChatState P st =
          Some \<lparr>ls_messages = map2 rebuilt ms ds,
                ls_fields = AList.delete ''messages'' (spread parsed)\<rparr>"
    by (auto simp: loadChatState_def parse_state_ok)
  have only: "loadChatState P st = Some s \<longrightarrow>
        (\<exists>saved' parsed' ms' ds'.
           getItem st STORAGE_KEY = Some saved' \<and> saved' \<noteq> []
           \<and> JSON_parse P saved' = Some parsed'
           \<and> get_prop parsed' ''messages'' = Some (JArr ms') \<and> JNull \<notin> set ms'
           \<and> map (\<lambda>m. new_Date P (get_prop m ''timestamp'')) ms' = map Inr ds'
           \<and> s = \<lparr>ls_messages = map2 rebuilt ms' ds',
                   ls_fields = AList.delete ''messages'' (spread parsed')\<rparr>)"
  proof
    assume "loadChatState P st = Some s"
    then obtain saved' where "getItem st STORAGE_KEY = Some saved'" "saved' \<noteq> []"
      "parse_state P saved' = Inr s"
      by (auto simp: loadChatState_def split: option.splits if_splits sum.splits)
    with parse_state_Inr_D [of P saved' s] show "\<exists>saved' parsed' ms' ds'.
           getItem st STORAGE_KEY = Some saved' \<and> saved' \<noteq> []
           \<and> JSON_parse P saved' = Some parsed'
           \<and> get_prop parsed' ''messages'' = Some (JArr ms') \<and> JNull \<notin> set ms'
           \<and> map (\<lambda>m. new_Date P (get_prop m ''timestamp'')) ms' = map Inr ds'
           \<and> s = \<lparr>ls_messages = map2 rebuilt ms' ds',
                   ls_fields = AList.delete ''messages'' (spread parsed')\<rparr>"
      by blast
  qed
  from absent empty malformed no_array null date loaded only
    new_Date_primitive [of v P] new_Date_object [of P fs] new_Date_array [of P xs]
  show ?thesis by (intro conjI)
qed

lemma ex_getItem_stored:
  "getItem (ex_stored text) STORAGE_KEY = Some text"
  "getItem ex_storage STORAGE_KEY = None"
  by (simp_all add: getItem_def ex_stored_def ex_storage_def STORAGE_KEY_def)

lemma ex_reads_parse: "JSON_parse (ex_reads j) (json_text j) = Some j"
  by (simp add: ex_reads_def ex_platform_def)

lemma ex_texts:
  "json_text ex_partial \<noteq> []" "json_text ex_no_messages \<noteq> []" "json_text ex_empty_snapshot \<noteq> []"
  by (simp_all add: ex_partial_def ex_no_messages_def ex_empty_snapshot_def)

theorem loadChatState_cases_witness:
  "getItem ex_storage STORAGE_KEY = None
   \<and> loadChatState (ex_platform [] []) ex_storage = None
   \<and> getItem (ex_stored ''{not json'') STORAGE_KEY = Some ''{not json''
   \<and> JSON_parse (ex_platform [] []) ''{not json'' = None
   \<and> loadChatState (ex_platform [] []) (ex_stored ''{not json'') = None
   \<and> JSON_parse (ex_reads ex_no_messages) (json_text ex_no_messages) = Some ex_no_messages
   \<and> get_prop ex_no_messages ''messages'' = None
   \<and> loadChatState (ex_reads ex_no_messages) (ex_stored (json_text ex_no_messages)) = None
   \<and> JSON_parse (ex_reads ex_bad_timestamp) (json_text ex_bad_timestamp) = Some ex_bad_timestamp
   \<and> get_prop ex_bad_timestamp ''messages''
       = Some (JArr [JObj [(''timestamp'', JObj [(''toString'', JNum 1)])]])
   \<and> new_Date (ex_reads ex_bad_timestamp)
        (get_prop (JObj [(''timestamp'', JObj [(''toString'', JNum 1)])]) ''timestamp'')
       = Inl TypeError
   \<and> loadChatState (ex_reads ex_bad_timestamp) (ex_stored (json_text ex_bad_timestamp)) = None
   \<and> JSON_parse (ex_reads ex_partial) (json_text ex_partial) = Some ex_partial
   \<and> get_prop ex_partial ''messages'' = Some (JArr [JObj [(''role'', JStr ''user'')]])
   \<and> new_Date (ex_reads ex_partial) (get_prop (JObj [(''role'', JStr ''user'')]) ''timestamp'')
       = Inr Invalid_Date
   \<and> loadChatState (ex_reads ex_partial) (ex_stored (json_text ex_partial))
       = Some \<lparr>ls_messages = [rebuilt (JObj [(''role'', JStr ''user'')]) Invalid_Date],
               ls_fields = AList.delete ''messages'' (spread ex_partial)\<rparr>
   \<and> (\<exists>d. new_Date (ex_platform [] []) (Some (JNum 5)) = Inr d)
   \<and> (\<exists>d. new_Date (ex_platform [] []) (Some (JObj [(''seconds'', JNum 5)])) = Inr d)
   \<and> \<not> (\<exists>d. new_Date (ex_platform [] []) (Some (JArr [JObj [(''toString'', JNum 1)]])) = Inr d)"
proof -
  have absent: "loadChatState (ex_platform [] []) ex_storage = None"
    using loadChatState_cases [of ex_storage "ex_platform [] []"] by (simp add: ex_getItem_stored)
  have junk: "JSON_parse (ex_platform [] []) ''{not json'' = None"
    by (simp add: ex_platform_def)
  with loadChatState_cases [of "ex_stored ''{not json''" "ex_platform [] []" "''{not json''"]
  have malformed: "loadChatState (ex_platform [] []) (ex_stored ''{not json'') = None"
    by (simp add: ex_getItem_stored)
  have no_msgs: "get_prop ex_no_messages ''messages'' = None"
    by (simp add: get_prop_def ex_no_messages_def)
  with loadChatState_cases [of "ex_stored (json_text ex_no_messages)" "ex_reads ex_no_messages"
      "json_text ex_no_messages" ex_no_messages]
  have no_array: "loadChatState (ex_reads ex_no_messages) (ex_stored (json_text ex_no_messages)) = None"
    by (simp add: ex_getItem_stored ex_reads_parse)
  have bad: "get_prop ex_bad_timestamp ''messages''
       = Some (JArr [JObj [(''timestamp'', JObj [(''toString'', JNum 1)])]])"
    by (simp add: get_prop_def ex_bad_timestamp_def)
  have throws: "new_Date (ex_reads ex_bad_timestamp)
        (get_prop (JObj [(''timestamp'', JObj [(''toString'', JNum 1)])]) ''timestamp'')
       = Inl TypeError"
    by (simp add: get_prop_def new_Date_def object_string_def)
  from bad throws loadChatState_cases [of "ex_stored (json_text ex_bad_timestamp)"
      "ex_reads ex_bad_timestamp" "json_text ex_bad_timestamp" ex_bad_timestamp
      "[JObj [(''timestamp'', JObj [(''toString'', JNum 1)])]]"
      "JObj [(''timestamp'', JObj [(''toString'', JNum 1)])]" TypeError]
  have thrown: "loadChatState (ex_reads ex_bad_timestamp) (ex_stored (json_text ex_bad_timestamp)) = None"
    by (simp add: ex_getItem_stored ex_reads_parse)
  have msgs: "get_prop ex_partial ''messages'' = Some (JArr [JObj [(''role'', JStr ''user'')]])"
    by (simp add: get_prop_def ex_partial_def)
  have undated: "new_Date (ex_reads ex_partial) (get_prop (JObj [(''role'', JStr ''user'')]) ''timestamp'')
       = Inr Invalid_Date"
    by (simp add: get_prop_def new_Date_def)
  from msgs undated loadChatState_cases [of "ex_stored (json_text ex_partial)" "ex_reads ex_partial"
      "json_text ex_partial" ex_partial "[JObj [(''role'', JStr ''user'')]]" _ _ "[Invalid_Date]"]
  have loaded: "loadChatState (ex_reads ex_partial) (ex_stored (json_text ex_partial))
       = Some \<lparr>ls_messages = [rebuilt (JObj [(''role'', JStr ''user'')]) Invalid_Date],
               ls_fields = AList.delete ''messages'' (spread ex_partial)\<rparr>"
    by (simp add: ex_getItem_stored ex_reads_parse ex_texts)
  have number: "\<exists>d. new_Date (ex_platform [] []) (Some (JNum 5)) = Inr d"
    using loadChatState_cases [of _ "ex_platform [] []" _ _ _ _ _ _ _ "Some (JNum 5)"] by simp
  have plain: "\<exists>d. new_Date (ex_platform [] []) (Some (JObj [(''seconds'', JNum 5)])) = Inr d"
    using loadChatState_cases [of _ "ex_platform [] []" _ _ _ _ _ _ _ _ "[(''seconds'', JNum 5)]"]
    by simp
  have nested: "\<not> (\<exists>d. new_Date (ex_platform [] []) (Some (JArr [JObj [(''toString'', JNum 1)]])) = Inr d)"
    using loadChatState_cases [of _ "ex_platform [] []" _ _ _ _ _ _ _ _ "[(''toString'', JNum 1)]"
        "[JObj [(''toString'', JNum 1)]]"]
    by simp
  from absent junk malformed no_msgs no_array bad throws thrown msgs undated loaded number plain nested
  show ?thesis
    by (simp add: ex_getItem_stored ex_reads_parse)
qed

text \<open>
  The claim as stated fails: the stored object has a \<^verbatim>\<open>messages\<close> array, but neither
  identifier, and its message has neither identifier nor content nor timestamp. The
  result is not \<^verbatim>\<open>null\<close>: it is that object, its message dated with the invalid date.
\<close>

theorem loadChatState_missing_fields_counterexample:
  "get_prop ex_partial ''sessionId'' = None
   \<and> get_prop ex_partial ''userId'' = None
   \<and> loadChatState (ex_reads ex_partial) (ex_stored (json_text ex_partial))
       = Some \<lparr>ls_messages = [\<lparr>lm_props = [(''role'', JStr ''user'')], lm_timestamp = Invalid_Date\<rparr>],
               ls_fields = []\<rparr>"
proof -
  have msgs: "get_prop ex_partial ''messages'' = Some (JArr [JObj [(''role'', JStr ''user'')]])"
    by (simp add: get_prop_def ex_partial_def)
  have "parse_state (ex_reads ex_partial) (json_text ex_partial) =
          Inr \<lparr>ls_messages = map2 rebuilt [JObj [(''role'', JStr ''user'')]] [Invalid_Date],
               ls_fields = AList.delete ''messages'' (spread ex_partial)\<rparr>"
    by (rule parse_state_ok [OF ex_reads_parse msgs]) (simp_all add: get_prop_def new_Date_def)
  then have "loadChatState (ex_reads ex_partial) (ex_stored (json_text ex_partial))
       = Some \<lparr>ls_messages = map2 rebuilt [JObj [(''role'', JStr ''user'')]] [Invalid_Date],
               ls_fields = AList.delete ''messages'' (spread ex_partial)\<rparr>"
    by (simp add: loadChatState_def ex_getItem_stored ex_texts)
  then show ?thesis
    by (simp add: ex_partial_def get_prop_def rebuilt_def spread_def)
qed

subsection \<open>Mounting on a snapshot without messages\<close>

lemma mount_fresh:
  assumes "generateUserId e2 st = Inr (uid, st1)"
    and "case loadChatState P st1 of None \<Rightarrow> True | Some s \<Rightarrow> ls_messages s = []"
  shows "mount P e1 e2 t st =
           Inr \<lparr>ui = initial_widget (generateSessionId e1) uid, storage = st1,
                timer = Some (t + AUTO_GREETING_DELAY), pending = 0, mounted = True\<rparr>"
  using assms
  by (auto simp: mount_def mount_effect_def Let_def save_effect_def greeting_effect_def
      after_render_def initial_widget_def split: option.splits)

text \<open>
  Claim C10. When the stored text parses to a value whose \<^verbatim>\<open>messages\<close> is the empty
  array, \<^const>\<open>loadChatState\<close> returns a snapshot, and the component mounts in its
  initial state all the same: an empty log, the greeting flag not set, no quick
  replies, and the greeting timer armed, as \<^const>\<open>mount\<close> leaves it when there is no
  snapshot (lemma \<open>mount_fresh\<close>).
\<close>

theorem mount_empty_snapshot:
  assumes "generateUserId e2 st = Inr (uid, st1)"
    and "getItem st STORAGE_KEY = Some saved" and "saved \<noteq> []"
    and "JSON_parse P saved = Some parsed"
    and "get_prop parsed ''messages'' = Some (JArr [])"
  shows "loadChatState P st1
           = Some \<lparr>ls_messages = [], ls_fields = AList.delete ''messages'' (spread parsed)\<rparr>
     \<and> mount P e1 e2 t st =
           Inr \<lparr>ui = initial_widget (generateSessionId e1) uid, storage = st1,
                timer = Some (t + AUTO_GREETING_DELAY), pending = 0, mounted = True\<rparr>
     \<and> messages (initial_widget (generateSessionId e1) uid) = []
     \<and> \<not> hasShownGreeting (initial_widget (generateSessionId e1) uid)
     \<and> \<not> quick_replies_shown (initial_widget (generateSessionId e1) uid)"
proof -
  from assms(1) have "getItem st1 STORAGE_KEY = getItem st STORAGE_KEY"
    by (rule generateUserId_other) simp
  with assms parse_state_ok [of P saved parsed "[]" "[]"] have load: "loadChatState P st1
           = Some \<lparr>ls_messages = [], ls_fields = AList.delete ''messages'' (spread parsed)\<rparr>"
    by (simp add: loadChatState_def)
  then have "mount P e1 e2 t st =
           Inr \<lparr>ui = initial_widget (generateSessionId e1) uid, storage = st1,
                timer = Some (t + AUTO_GREETING_DELAY), pending = 0, mounted = True\<rparr>"
    using assms(1) by (intro mount_fresh) simp_all
  with load show ?thesis
    by (simp add: initial_widget_def quick_replies_shown_def)
qed

lemma ex_generateUserId_stored:
  "generateUserId (ex_env 0) (ex_stored text) = Inr (''user-0-k3j9x0a1b'', ex_stored text)"
  by (simp add: generateUserId_def getItem_def ex_stored_def USER_ID_KEY_def)

theorem mount_empty_snapshot_witness:
  "generateUserId (ex_env 0) (ex_stored (json_text ex_empty_snapshot))
     = Inr (''user-0-k3j9x0a1b'', ex_stored (json_text ex_empty_snapshot))
   \<and> getItem (ex_stored (json_text ex_empty_snapshot)) STORAGE_KEY
       = Some (json_text ex_empty_snapshot)
   \<and> json_text ex_empty_snapshot \<noteq> []
   \<and> JSON_parse (ex_reads ex_empty_snapshot) (json_text ex_empty_snapshot) = Some ex_empty_snapshot
   \<and> get_prop ex_empty_snapshot ''messages'' = Some (JArr [])
   \<and> loadChatState (ex_reads ex_empty_snapshot) (ex_stored (json_text ex_empty_snapshot)) \<noteq> None
   \<and> mount (ex_reads ex_empty_snapshot) (ex_env 0) (ex_env 0) 0
        (ex_stored (json_text ex_empty_snapshot))
       = Inr \<lparr>ui = initial_widget (generateSessionId (ex_env 0)) ''user-0-k3j9x0a1b'',
              storage = ex_stored (json_text ex_empty_snapshot),
              timer = Some (0 + AUTO_GREETING_DELAY), pending = 0, mounted = True\<rparr>"
proof -
  have msgs: "get_prop ex_empty_snapshot ''messages'' = Some (JArr [])"
    by (simp add: get_prop_def ex_empty_snapshot_def)
  from mount_empty_snapshot [OF ex_generateUserId_stored ex_getItem_stored(1) ex_texts(3)
      ex_reads_parse msgs, of "ex_env 0" 0]
  show ?thesis
    by (simp add: ex_generateUserId_stored ex_getItem_stored ex_texts ex_reads_parse msgs)
qed

subsection \<open>The length of user messages\<close>

lemma length_trim: "length (trim s) \<le> length s"
proof -
  have "length (dropWhile is_space (rev (dropWhile is_space s))) \<le> length (rev (dropWhile is_space s))"
    by (rule length_dropWhile_le)
  also have "\<dots> \<le> length s" by (simp add: length_dropWhile_le)
  finally show ?thesis by (simp add: trim_def)
qed

lemma inputValue_update_quick_replies [simp]:
  "inputValue (update_quick_replies d u) = inputValue u"
  by (simp add: update_quick_replies_def split: option.splits)

lemma inputValue_agent_update [simp]: "inputValue (agent_update e outcome u) = inputValue u"
  by (cases outcome) (auto simp: agent_update_def)

lemma inputValue_handle:
  "length (inputValue (ui w)) \<le> MAX_CHAR_LIMIT \<Longrightarrow>
   length (inputValue (ui (handle P e ev w))) \<le> MAX_CHAR_LIMIT"
  by (cases ev)
     (simp_all add: handle_def reset_def handleKeyPress_def handleSendMessage_def
       handleQuickReply_def handleSendMessage_resume_def greeting_timeout_def unmount_def
       greeting_cleanup_def handleInputChange_def Let_def)

lemma inputValue_run:
  "length (inputValue (ui w)) \<le> MAX_CHAR_LIMIT \<Longrightarrow>
   length (inputValue (ui (run P xs w))) \<le> MAX_CHAR_LIMIT"
  by (induction xs arbitrary: w) (simp_all add: step_def inputValue_handle)

lemma inputValue_restore_quick_replies [simp]:
  "inputValue (restore_quick_replies ms u) = inputValue u"
  by (simp add: restore_quick_replies_def split: option.splits)

lemma inputValue_mount: "mount P e1 e2 t st = Inr w \<Longrightarrow> inputValue (ui w) = []"
  by (auto simp: mount_def mount_effect_def Let_def initial_widget_def
      split: sum.splits option.splits if_splits)

lemma send_input_bounded:
  assumes "length (inputValue (ui w)) \<le> MAX_CHAR_LIMIT"
  shows "handleSendMessage P e (inputValue (ui w)) w = w
     \<or> (\<exists>m. messages (ui (handleSendMessage P e (inputValue (ui w)) w)) = messages (ui w) @ [m]
            \<and> role m = User \<and> content m = trim (inputValue (ui w))
            \<and> length (content m) \<le> MAX_CHAR_LIMIT)"
proof (cases "trim (inputValue (ui w)) = []")
  case True
  then show ?thesis by (simp add: handleSendMessage_def)
next
  case False
  have "length (trim (inputValue (ui w))) \<le> MAX_CHAR_LIMIT"
    using length_trim [of "inputValue (ui w)"] assms by simp
  with False show ?thesis
    by (simp add: handleSendMessage_def Let_def userMessage_def)
qed

lemma step_send_cases:
  "ev = ClickSend \<or> ev = KeyPress key shiftKey \<Longrightarrow>
   step P (e, ev) w = w \<or> step P (e, ev) w = handleSendMessage P e (inputValue (ui w)) w"
  by (auto simp: step_def handle_def handleKeyPress_def)

text \<open>
  Claim C1, as the code has it. The input handler rejects a value of more than 250
  characters, so in every state that the component reaches from its mount the input
  buffer has at most 250 characters, and a user message sent from the buffer (by the send
  button or the Enter key) has the trimmed buffer as its content, of at most 250
  characters. A quick reply sends its action label: the user message has the trimmed
  label as its content, whatever its length.
\<close>

theorem input_messages_bounded:
  assumes "mount P e1 e2 t st = Inr w0"
  shows "length (inputValue (ui (run P xs w0))) \<le> MAX_CHAR_LIMIT
    \<and> (ev = ClickSend \<or> ev = KeyPress key shiftKey \<longrightarrow>
         step P (e, ev) (run P xs w0) = run P xs w0
         \<or> (\<exists>m. messages (ui (step P (e, ev) (run P xs w0))) = messages (ui (run P xs w0)) @ [m]
               \<and> role m = User
               \<and> content m = trim (inputValue (ui (run P xs w0)))
               \<and> length (content m) \<le> MAX_CHAR_LIMIT))
    \<and> (trim action \<noteq> [] \<longrightarrow>
         messages (ui (handleQuickReply P e action (run P xs w0)))
           = messages (ui (run P xs w0)) @ [userMessage e (trim action)]
         \<and> role (userMessage e (trim action)) = User
         \<and> content (userMessage e (trim action)) = trim action)"
proof -
  let ?w = "run P xs w0"
  have inv: "length (inputValue (ui ?w)) \<le> MAX_CHAR_LIMIT"
    using inputValue_mount [OF assms] by (intro inputValue_run) simp
  have send: "step P (e, ev) ?w = ?w
         \<or> (\<exists>m. messages (ui (step P (e, ev) ?w)) = messages (ui ?w) @ [m]
               \<and> role m = User
               \<and> content m = trim (inputValue (ui ?w))
               \<and> length (content m) \<le> MAX_CHAR_LIMIT)"
    if "ev = ClickSend \<or> ev = KeyPress key shiftKey"
    using step_send_cases [OF that, of P e ?w] send_input_bounded [OF inv, of P e]
    by (elim disjE) simp_all
  have quick: "messages (ui (handleQuickReply P e action ?w))
           = messages (ui ?w) @ [userMessage e (trim action)]
         \<and> role (userMessage e (trim action)) = User
         \<and> content (userMessage e (trim action)) = trim action"
    if "trim action \<noteq> []"
    using that by (simp add: handleQuickReply_def handleSendMessage_def Let_def userMessage_def)
  from inv send quick show ?thesis by blast
qed

theorem input_messages_bounded_witness:
  "mount (ex_platform [] []) (ex_env 0) (ex_env 0) 0 ex_storage
     = Inr ex_mounted
   \<and> length (inputValue (ui (run (ex_platform [] [])
         [(ex_env 1000, Open), (ex_env 2000, InputChange ''hi'')]
         ex_mounted))) \<le> MAX_CHAR_LIMIT
   \<and> trim ''Book Now'' \<noteq> []
   \<and> messages (ui (handleQuickReply (ex_platform [] []) (ex_env 3000) ''Book Now''
         (run (ex_platform [] [])
           [(ex_env 1000, Open), (ex_env 2000, InputChange ''hi'')]
           ex_mounted)))
       = messages (ui (run (ex_platform [] [])
           [(ex_env 1000, Open), (ex_env 2000, InputChange ''hi'')]
           ex_mounted))
         @ [userMessage (ex_env 3000) (trim ''Book Now'')]"
proof -
  have "trim ''Book Now'' \<noteq> []"
    by (simp add: trim_def is_space_def)
  with input_messages_bounded [OF ex_mount,
      of "ex_platform [] []" "[(ex_env 1000, Open), (ex_env 2000, InputChange ''hi'')]"
         ClickSend "''Enter''" False "ex_env 3000" "''Book Now''"]
    ex_mount [of "ex_platform [] []"]
  show ?thesis by simp
qed

lemma trim_replicate: "\<not> is_space c \<Longrightarrow> trim (replicate n c) = replicate n c"
  by (simp add: trim_def dropWhile_replicate)

lemma ex_long_label_trim: "trim ex_long_label = ex_long_label"
  by (simp add: ex_long_label_def trim_replicate is_space_def)

lemma ex_long_label_length: "length ex_long_label = 251" "ex_long_label \<noteq> []"
  by (simp_all add: ex_long_label_def)

text \<open>
  The claim as stated fails for quick replies: the agent suggests an action of 251
  characters, the visitor selects it, and the log ends with a user message of 251
  characters.
\<close>

theorem quick_reply_unbounded_counterexample:
  "\<exists>w0 w. mount (ex_platform [] []) (ex_env 0) (ex_env 0) 0 ex_storage = Inr w0
     \<and> w = run (ex_platform [] [])
             [(ex_env 1000, Open), (ex_env 2000, InputChange ''hi''), (ex_env 3000, ClickSend),
              (ex_env 4000, AgentReturns (Returned True True ex_long_result)),
              (ex_env 4500, QuickReply ex_long_label)] w0
     \<and> length (messages (ui w)) = 3
     \<and> role (last (messages (ui w))) = User
     \<and> length (content (last (messages (ui w)))) = 251
     \<and> MAX_CHAR_LIMIT = 250"
proof -
  let ?start = ex_mounted
  let ?final = "run (ex_platform [] [])
             [(ex_env 1000, Open), (ex_env 2000, InputChange ''hi''), (ex_env 3000, ClickSend),
              (ex_env 4000, AgentReturns (Returned True True ex_long_result)),
              (ex_env 4500, QuickReply ex_long_label)] ?start"
  have "mount (ex_platform [] []) (ex_env 0) (ex_env 0) 0 ex_storage = Inr ?start"
    by (rule ex_mount)
  moreover have "length (messages (ui ?final)) = 3
     \<and> role (last (messages (ui ?final))) = User
     \<and> length (content (last (messages (ui ?final)))) = 251"
    by (simp add: step_def enabled_def handle_def handleSendMessage_def handleQuickReply_def
        handleSendMessage_resume_def handleInputChange_def agent_update_def
        update_quick_replies_def ex_long_result_def
        initial_widget_def quick_replies_shown_def MAX_CHAR_LIMIT_def Let_def
        trim_def is_space_def userMessage_def ex_long_label_trim [unfolded trim_def]
        ex_long_label_length ex_mounted_def)
  ultimately show ?thesis by (simp add: MAX_CHAR_LIMIT_def)
qed


subsection \<open>The greeting timer\<close>

lemma hasShownGreeting_update_quick_replies [simp]:
  "hasShownGreeting (update_quick_replies d u) = hasShownGreeting u"
  by (simp add: update_quick_replies_def split: option.splits)

lemma hasShownGreeting_agent_update [simp]:
  "hasShownGreeting (agent_update e outcome u) = hasShownGreeting u"
  by (cases outcome) (auto simp: agent_update_def)

lemma timer_idle_handle: "timer_idle w \<Longrightarrow> timer_idle (handle P e ev w)"
  by (cases ev)
     (auto simp: timer_idle_def handle_def reset_def handleKeyPress_def handleSendMessage_def
       handleQuickReply_def handleSendMessage_resume_def greeting_timeout_def unmount_def
       greeting_cleanup_def timer_after_render messages_agent_update handleInputChange_def Let_def)

lemma timer_idle_step: "timer_idle w \<Longrightarrow> timer_idle (step P x w)"
  by (simp add: step_def timer_idle_handle)

lemma timer_idle_run: "timer_idle w \<Longrightarrow> timer_idle (run P xs w)"
  by (induction xs arbitrary: w) (simp_all add: timer_idle_step)

lemma hasShownGreeting_restore [simp]:
  "hasShownGreeting (restore_quick_replies ms u) = hasShownGreeting u"
  "messages (restore_quick_replies ms u) = messages u"
  by (simp_all add: restore_quick_replies_def split: option.splits)

lemma timer_idle_mount: "mount P e1 e2 t st = Inr w \<Longrightarrow> timer_idle w"
  by (auto simp: mount_def mount_effect_def Let_def timer_idle_def timer_after_render
      initial_widget_def split: sum.splits option.splits if_splits)

lemma quiet_handle: "quiet w \<Longrightarrow> ev \<noteq> Reset \<Longrightarrow> quiet (handle P e ev w)"
  by (cases ev)
     (auto simp: quiet_def handle_def handleKeyPress_def handleSendMessage_def
       handleQuickReply_def handleSendMessage_resume_def greeting_timeout_def unmount_def
       greeting_cleanup_def timer_after_render messages_agent_update handleInputChange_def Let_def)

lemma quiet_step: "quiet w \<Longrightarrow> snd x \<noteq> Reset \<Longrightarrow> quiet (step P x w)"
  by (simp add: step_def quiet_handle)

lemma quiet_greetings:
  "quiet w \<Longrightarrow> \<forall>x \<in> set xs. snd x \<noteq> Reset \<Longrightarrow> greetings P xs w = 0 \<and> quiet (run P xs w)"
proof (induction xs arbitrary: w)
  case Nil
  then show ?case by simp
next
  case (Cons x xs)
  from Cons.prems have "quiet (step P x w)" by (simp add: quiet_step)
  with Cons.IH [of "step P x w"] Cons.prems show ?case
    by (simp add: enabled_def quiet_def)
qed

lemma quiet_send: "trim text \<noteq> [] \<Longrightarrow> quiet (handleSendMessage P e text w)"
  by (simp add: quiet_def handleSendMessage_def Let_def timer_after_render)

lemma unmounted_step: "\<not> mounted w \<Longrightarrow> step P x w = w"
  by (simp add: step_def)

lemma unmounted_greetings: "\<not> mounted w \<Longrightarrow> greetings P xs w = 0 \<and> run P xs w = w"
  by (induction xs) (simp_all add: unmounted_step)

lemma spent_greetings:
  "timer w = None \<Longrightarrow> \<forall>x \<in> set xs. snd x = TimerFires \<Longrightarrow>
   greetings P xs w = 0 \<and> run P xs w = w"
  by (induction xs) (auto simp: step_def enabled_def)

lemma fire_due:
  assumes "mounted w" "timer w = Some due" "due \<le> now e"
    "messages (ui w) = []" "\<not> hasShownGreeting (ui w)"
  shows "step P (e, TimerFires) w = greeting_timeout P e w"
    and "timer (greeting_timeout P e w) = None"
    and "messages (ui (greeting_timeout P e w)) = [greetingMessage e]"
    and "hasShownGreeting (ui (greeting_timeout P e w))"
    and "currentQuickReplies (ui (greeting_timeout P e w)) = GREETING_ACTIONS"
    and "showQuickReplies (ui (greeting_timeout P e w))"
  using assms
  by (simp_all add: step_def enabled_def handle_def greeting_timeout_def timer_after_render)

lemma fire_early:
  assumes "timer w = Some due" "\<not> due \<le> now e"
  shows "step P (e, TimerFires) w = w"
  using assms by (simp add: step_def enabled_def)

lemma armed_greetings:
  assumes "mounted w" "timer w = Some due" "messages (ui w) = []" "\<not> hasShownGreeting (ui w)"
    and "\<forall>x \<in> set xs. snd x = TimerFires"
  shows "greetings P xs w = (if \<exists>x \<in> set xs. due \<le> now (fst x) then 1 else 0)
    \<and> (if \<exists>x \<in> set xs. due \<le> now (fst x)
        then \<exists>e. due \<le> now e \<and> messages (ui (run P xs w)) = [greetingMessage e]
               \<and> hasShownGreeting (ui (run P xs w))
               \<and> currentQuickReplies (ui (run P xs w)) = GREETING_ACTIONS
        else run P xs w = w)"
  using assms(5)
proof (induction xs)
  case Nil
  then show ?case by simp
next
  case (Cons x xs)
  obtain e ev where x: "x = (e, ev)" by (cases x)
  with Cons.prems have ev: "ev = TimerFires" by simp
  show ?case
  proof (cases "due \<le> now e")
    case True
    let ?w' = "greeting_timeout P e w"
    from fire_due [OF assms(1,2) True assms(3,4), of P]
    have s: "step P x w = ?w'" and t: "timer ?w' = None"
      and m: "messages (ui ?w') = [greetingMessage e]" and h: "hasShownGreeting (ui ?w')"
      and q: "currentQuickReplies (ui ?w') = GREETING_ACTIONS"
      by (simp_all add: x ev)
    from spent_greetings [OF t, of xs P] Cons.prems
    have rest: "greetings P xs ?w' = 0" "run P xs ?w' = ?w'" by simp_all
    have en: "enabled e TimerFires w" using assms(2) True by (simp add: enabled_def)
    from True have ex: "\<exists>y \<in> set (x # xs). due \<le> now (fst y)" by (simp add: x)
    have "greetings P (x # xs) w = 1"
      using s rest en assms(1) by (simp add: x ev)
    moreover have "\<exists>e. due \<le> now e \<and> messages (ui (run P (x # xs) w)) = [greetingMessage e]
               \<and> hasShownGreeting (ui (run P (x # xs) w))
               \<and> currentQuickReplies (ui (run P (x # xs) w)) = GREETING_ACTIONS"
      using s rest m h q True by auto
    ultimately show ?thesis using ex by simp
  next
    case False
    from fire_early [OF assms(2) False, of P] have s: "step P x w = w" by (simp add: x ev)
    have en: "\<not> enabled e TimerFires w" using assms(2) False by (simp add: enabled_def)
    have iff: "(\<exists>y \<in> set (x # xs). due \<le> now (fst y)) \<longleftrightarrow> (\<exists>y \<in> set xs. due \<le> now (fst y))"
      using False by (simp add: x)
    have g: "greetings P (x # xs) w = greetings P xs w" using s en by (simp add: x ev)
    have r: "run P (x # xs) w = run P xs w" using s by simp
    from Cons.IH Cons.prems show ?thesis unfolding g r iff by simp
  qed
qed


lemma mount_no_snapshot:
  assumes "getItem st STORAGE_KEY = None" and "mount P e1 e2 t st = Inr w0"
  shows "mounted w0 \<and> messages (ui w0) = [] \<and> \<not> hasShownGreeting (ui w0)
     \<and> timer w0 = Some (t + AUTO_GREETING_DELAY)"
proof -
  from assms(2) obtain uid st1 where g: "generateUserId e2 st = Inr (uid, st1)"
    by (auto simp: mount_def split: sum.splits)
  then have "getItem st1 STORAGE_KEY = getItem st STORAGE_KEY"
    by (rule generateUserId_other) simp
  with assms(1) have "loadChatState P st1 = None"
    by (simp add: loadChatState_def)
  with mount_fresh [OF g, of P e1 t] assms(2) show ?thesis
    by (auto simp: initial_widget_def)
qed

text \<open>
  Claim C8. When there is no snapshot, the component mounts with an empty log and the
  timer armed for 5000 ms after the mount. If nothing happens but the timer, its callback
  runs exactly once, not before the timer is due, and leaves the log with the one
  greeting message (fixed text, four suggested actions) and the flag set; otherwise the
  world stays as it is. From any mount: a message sent at any point clears the timer,
  and the callback does not run in any continuation in which the flag is not cleared
  again, that is, without a reset; unmounting clears the timer, and the callback never
  runs afterwards; and in every state that the component reaches, no timer is armed
  while the greeting flag is set.
\<close>

theorem greeting_timer:
  assumes "mount P e1 e2 t st = Inr w0"
  shows "(getItem st STORAGE_KEY = None \<longrightarrow>
       messages (ui w0) = [] \<and> timer w0 = Some (t + AUTO_GREETING_DELAY)
       \<and> ((\<forall>x \<in> set xs. snd x = TimerFires) \<longrightarrow>
            greetings P xs w0 = (if \<exists>x \<in> set xs. t + AUTO_GREETING_DELAY \<le> now (fst x) then 1 else 0)
            \<and> (if \<exists>x \<in> set xs. t + AUTO_GREETING_DELAY \<le> now (fst x)
               then \<exists>e. t + AUTO_GREETING_DELAY \<le> now e
                      \<and> messages (ui (run P xs w0)) = [greetingMessage e]
                      \<and> hasShownGreeting (ui (run P xs w0))
                      \<and> currentQuickReplies (ui (run P xs w0)) = GREETING_ACTIONS
               else run P xs w0 = w0)))
    \<and> role (greetingMessage e) = Agent
    \<and> content (greetingMessage e) = INITIAL_GREETING
    \<and> suggested_actions (greetingMessage e) = Some GREETING_ACTIONS
    \<and> length GREETING_ACTIONS = 4
    \<and> (trim text \<noteq> [] \<and> (\<forall>y \<in> set ys. snd y \<noteq> Reset) \<longrightarrow>
         timer (handleSendMessage P e text (run P zs w0)) = None
         \<and> greetings P ys (handleSendMessage P e text (run P zs w0)) = 0)
    \<and> timer (unmount (run P zs w0)) = None
    \<and> greetings P ys (unmount (run P zs w0)) = 0
    \<and> (hasShownGreeting (ui (run P zs w0)) \<longrightarrow> timer (run P zs w0) = None)"
proof -
  have idle: "messages (ui w0) = [] \<and> timer w0 = Some (t + AUTO_GREETING_DELAY)
       \<and> ((\<forall>x \<in> set xs. snd x = TimerFires) \<longrightarrow>
            greetings P xs w0 = (if \<exists>x \<in> set xs. t + AUTO_GREETING_DELAY \<le> now (fst x) then 1 else 0)
            \<and> (if \<exists>x \<in> set xs. t + AUTO_GREETING_DELAY \<le> now (fst x)
               then \<exists>e. t + AUTO_GREETING_DELAY \<le> now e
                      \<and> messages (ui (run P xs w0)) = [greetingMessage e]
                      \<and> hasShownGreeting (ui (run P xs w0))
                      \<and> currentQuickReplies (ui (run P xs w0)) = GREETING_ACTIONS
               else run P xs w0 = w0))"
    if none: "getItem st STORAGE_KEY = None"
  proof -
    from mount_no_snapshot [OF none assms]
    have w0: "mounted w0" "messages (ui w0) = []" "\<not> hasShownGreeting (ui w0)"
      "timer w0 = Some (t + AUTO_GREETING_DELAY)" by simp_all
    from armed_greetings [OF w0(1) w0(4) w0(2) w0(3), of xs P] w0(2,4) show ?thesis by blast
  qed
  have greeting: "role (greetingMessage e) = Agent \<and> content (greetingMessage e) = INITIAL_GREETING
    \<and> suggested_actions (greetingMessage e) = Some GREETING_ACTIONS \<and> length GREETING_ACTIONS = 4"
    by (simp add: greetingMessage_def GREETING_ACTIONS_def)
  have send: "trim text \<noteq> [] \<and> (\<forall>y \<in> set ys. snd y \<noteq> Reset) \<longrightarrow>
         timer (handleSendMessage P e text (run P zs w0)) = None
         \<and> greetings P ys (handleSendMessage P e text (run P zs w0)) = 0"
    using quiet_send [of "text" P e "run P zs w0"]
      quiet_greetings [of "handleSendMessage P e text (run P zs w0)" ys P]
    by (auto simp: quiet_def)
  have down: "timer (unmount (run P zs w0)) = None \<and> greetings P ys (unmount (run P zs w0)) = 0"
    using unmounted_greetings [of "unmount (run P zs w0)" P ys]
    by (simp add: unmount_def greeting_cleanup_def)
  have "timer_idle (run P zs w0)"
    using timer_idle_mount [OF assms] by (rule timer_idle_run)
  then have flag: "hasShownGreeting (ui (run P zs w0)) \<longrightarrow> timer (run P zs w0) = None"
    by (simp add: timer_idle_def)
  from idle greeting send down flag show ?thesis by blast
qed

theorem greeting_timer_witness:
  "getItem ex_storage STORAGE_KEY = None
   \<and> mount (ex_platform [] []) (ex_env 0) (ex_env 0) 0 ex_storage = Inr ex_mounted
   \<and> timer ex_mounted = Some (0 + AUTO_GREETING_DELAY)
   \<and> greetings (ex_platform [] [])
        [(ex_env 4000, TimerFires), (ex_env 6000, TimerFires), (ex_env 9000, TimerFires)]
        ex_mounted = 1
   \<and> trim ''hi'' \<noteq> []
   \<and> greetings (ex_platform [] []) [(ex_env 9000, TimerFires)]
        (handleSendMessage (ex_platform [] []) (ex_env 1000) ''hi''
          (run (ex_platform [] []) [(ex_env 500, Open)] ex_mounted)) = 0
   \<and> greetings (ex_platform [] []) [(ex_env 9000, TimerFires)]
        (unmount (run (ex_platform [] []) [(ex_env 500, Open)] ex_mounted)) = 0
   \<and> hasShownGreeting (ui (run (ex_platform [] []) [(ex_env 6000, TimerFires)] ex_mounted))
   \<and> timer (run (ex_platform [] []) [(ex_env 6000, TimerFires)] ex_mounted) = None"
proof -
  have t: "trim ''hi'' \<noteq> []"
    by (simp add: trim_def is_space_def)
  have fired: "hasShownGreeting (ui (run (ex_platform [] []) [(ex_env 6000, TimerFires)] ex_mounted))
     \<and> timer (run (ex_platform [] []) [(ex_env 6000, TimerFires)] ex_mounted) = None"
    using greeting_timer [of "ex_platform [] []" "ex_env 0" "ex_env 0" 0 ex_storage ex_mounted
        "[(ex_env 6000, TimerFires)]" "ex_env 1000" "''hi''" "[]" "[(ex_env 6000, TimerFires)]",
        OF ex_mount]
    by (auto simp: ex_getItem_stored AUTO_GREETING_DELAY_def)
  from greeting_timer [of "ex_platform [] []" "ex_env 0" "ex_env 0" 0 ex_storage ex_mounted
      "[(ex_env 4000, TimerFires), (ex_env 6000, TimerFires), (ex_env 9000, TimerFires)]"
      "ex_env 1000" "''hi''" "[(ex_env 9000, TimerFires)]" "[(ex_env 500, Open)]", OF ex_mount] t
    fired
  show ?thesis
    by (simp add: ex_getItem_stored ex_mount AUTO_GREETING_DELAY_def)
qed

text \<open>
  A reset clears the flag and empties the log, so the timer is armed again: the visitor
  sends a message 3000 ms after the mount and resets the conversation, and 5000 ms after
  the reset the greeting appears.
\<close>

lemma reset_rearms_example:
  "mount (ex_platform [] []) (ex_env 0) (ex_env 0) 0 ex_storage = Inr ex_mounted
   \<and> now (ex_env 3000) < 0 + AUTO_GREETING_DELAY
   \<and> greetings (ex_platform [] [])
        [(ex_env 1000, Open), (ex_env 2000, InputChange ''hi''), (ex_env 3000, ClickSend),
         (ex_env 3500, Reset), (ex_env 8500, TimerFires)] ex_mounted = 1
   \<and> messages (ui (run (ex_platform [] [])
        [(ex_env 1000, Open), (ex_env 2000, InputChange ''hi''), (ex_env 3000, ClickSend),
         (ex_env 3500, Reset), (ex_env 8500, TimerFires)] ex_mounted))
       = [greetingMessage (ex_env 8500)]"
  by (simp add: ex_mount)
     (simp add: step_def enabled_def handle_def handleSendMessage_def reset_def
        handleInputChange_def greeting_timeout_def timer_after_render
        initial_widget_def MAX_CHAR_LIMIT_def Let_def AUTO_GREETING_DELAY_def
        trim_def is_space_def ex_mounted_def)

subsection \<open>Saving and loading\<close>

lemma as_strings_JStr [simp]: "as_strings (map JStr acts) = Some acts"
  by (induction acts) simp_all

lemma as_LeadQualification_json [simp]: "as_LeadQualification (LeadQualification_json q) = Some q"
  by (simp add: as_LeadQualification_def LeadQualification_json_def)

lemma as_Role_text [simp]: "as_Role (role_text r) = Some r"
  by (cases r) (simp_all add: as_Role_def role_text_def)

lemma as_actions_other: "k \<noteq> ''suggested_actions'' \<Longrightarrow> as_actions (k, v) = None"
  by (cases v) (simp_all add: as_actions_def)

lemma as_actions_JArr: "as_actions (''suggested_actions'', JArr xs) = as_strings xs"
  by (simp add: as_actions_def)

lemma as_optional_props [simp]:
  "as_optional (optional_props m) = Some (suggested_actions m, lead_qualification m)"
  by (simp add: as_optional_def optional_props_def as_actions_other as_actions_JArr
      as_qualification_def split: option.splits)

lemma optional_props_no_timestamp [simp]:
  "AList.delete ''timestamp'' (optional_props m) = optional_props m"
  by (cases "suggested_actions m"; cases "lead_qualification m")
     (simp_all add: optional_props_def AList.delete_eq)

lemma rebuilt_Message_json:
  "rebuilt (Message_json P m) d =
     \<lparr>lm_props = [(''id'', JStr (msg_id m)), (''role'', JStr (role_text (role m))),
                  (''content'', JStr (content m))] @ optional_props m,
      lm_timestamp = d\<rparr>"
  by (simp add: rebuilt_def Message_json_def spread_def)

lemma as_Message_rebuilt:
  "as_Message (rebuilt (Message_json P m) d) = Some (m\<lparr>timestamp := d\<rparr>)"
  by (simp add: rebuilt_Message_json as_Message_def)

lemma new_Date_toJSON:
  "new_Date P (Some (Date_toJSON P d)) = Inr (reload_date P d)"
  by (simp add: new_Date_def Date_toJSON_def reload_date_def split: Date.splits)

lemma Message_json_timestamp:
  "get_prop (Message_json P m) ''timestamp'' = Some (Date_toJSON P (timestamp m))"
  by (simp add: get_prop_def Message_json_def)

lemma Message_json_dates:
  "map (\<lambda>m. new_Date P (get_prop m ''timestamp'')) (map (Message_json P) ms)
     = map Inr (map (\<lambda>m. reload_date P (timestamp m)) ms)"
  by (simp add: Message_json_timestamp new_Date_toJSON)

lemma map2_rebuilt:
  "map2 rebuilt (map (Message_json P) ms) (map (\<lambda>m. reload_date P (timestamp m)) ms)
     = map (reloaded P) ms"
  by (induction ms) (simp_all add: reloaded_def)

lemma as_Messages_reloaded:
  "as_Messages (map (reloaded P) ms)
     = Some (map (\<lambda>m. m\<lparr>timestamp := reload_date P (timestamp m)\<rparr>) ms)"
  by (induction ms) (simp_all add: reloaded_def as_Message_rebuilt)

lemma Message_json_not_null: "JNull \<notin> set (map (Message_json P) ms)"
  by (auto simp: Message_json_def)

lemma load_after_save:
  assumes "fits st (JSON_stringify P (ChatState_json P s))"
    and "JSON_stringify P (ChatState_json P s) \<noteq> []"
    and "JSON_parse P (JSON_stringify P (ChatState_json P s)) = Some (ChatState_json P s)"
  shows "loadChatState P (saveChatState P s st)
           = Some \<lparr>ls_messages = map (reloaded P) (cs_messages s),
                   ls_fields = [(''sessionId'', JStr (cs_sessionId s)), (''userId'', JStr (cs_userId s))]\<rparr>"
proof -
  from assms(1) have "getItem (saveChatState P s st) STORAGE_KEY
      = Some (JSON_stringify P (ChatState_json P s))"
    by (simp add: saveChatState_def setItem_def fits_def Let_def getItem_def update_conv')
  moreover have get_prop_messages:
    "get_prop (ChatState_json P s) ''messages'' = Some (JArr (map (Message_json P) (cs_messages s)))"
    by (simp add: get_prop_def ChatState_json_def)
  moreover have "AList.delete ''messages'' (spread (ChatState_json P s))
       = [(''sessionId'', JStr (cs_sessionId s)), (''userId'', JStr (cs_userId s))]"
    by (simp add: spread_def ChatState_json_def AList.delete_eq)
  moreover from assms(3) have "parse_state P (JSON_stringify P (ChatState_json P s)) =
      Inr \<lparr>ls_messages = map2 rebuilt (map (Message_json P) (cs_messages s))
                            (map (\<lambda>m. reload_date P (timestamp m)) (cs_messages s)),
           ls_fields = AList.delete ''messages'' (spread (ChatState_json P s))\<rparr>"
    by (rule parse_state_ok)
       (simp_all only: get_prop_messages Message_json_not_null Message_json_dates not_False_eq_True)
  ultimately show ?thesis
    using assms(2) by (simp add: loadChatState_def map2_rebuilt)
qed

text \<open>
  Claim C6, as the code has it. Take a snapshot whose timestamps are valid dates, a
  storage area that accepts the write, and a platform on which \<^verbatim>\<open>JSON.parse\<close> reads
  the text of the snapshot back and the \<^verbatim>\<open>Date\<close> constructor reads the ISO string of
  each timestamp back. Then loading after saving returns a snapshot that, read at the
  type \<^verbatim>\<open>ChatState\<close>, is the saved one: the same messages with the same timestamps,
  the same identifiers.
\<close>

theorem save_load_roundtrip:
  assumes "fits st (JSON_stringify P (ChatState_json P s))"
    and "JSON_stringify P (ChatState_json P s) \<noteq> []"
    and "JSON_parse P (JSON_stringify P (ChatState_json P s)) = Some (ChatState_json P s)"
    and "\<forall>m \<in> set (cs_messages s). \<exists>t. timestamp m = Date t \<and> Date_of_string P (toISOString P t) = Date t"
  shows "\<exists>l. loadChatState P (saveChatState P s st) = Some l \<and> as_ChatState l = Some s"
proof -
  have "map (\<lambda>m. m\<lparr>timestamp := reload_date P (timestamp m)\<rparr>) (cs_messages s)
          = cs_messages s"
    using assms(4) by (intro map_idI) (auto simp: reload_date_def)
  then have "as_Messages (map (reloaded P) (cs_messages s)) = Some (cs_messages s)"
    by (simp only: as_Messages_reloaded)
  then show ?thesis
    using load_after_save [OF assms(1-3)] by (simp add: as_ChatState_def)
qed

lemma ChatState_json_cong:
  "toISOString P = toISOString Q \<Longrightarrow> ChatState_json P s = ChatState_json Q s"
  by (simp add: ChatState_json_def Message_json_def Date_toJSON_def cong: Date.case_cong)

lemma ex_platform_iso [simp]: "toISOString (ex_platform texts dates) = iso_text"
  by (simp add: ex_platform_def)

lemma ex_iso:
  "iso_text 1000 = ''1970-01-01T00:00:01.000Z''"
  "iso_text 2000 = ''1970-01-01T00:00:02.000Z''"
  by (simp_all add: iso_text_def pad_def int_to_string_def nat_to_string.simps digit_char_def
      eval_nat_numeral)

lemma ex_ids2:
  "generateId (ex_env 2000) = ''2000-k3j9x0a1b''"
  "generateId (ex_env 3000) = ''3000-k3j9x0a1b''"
  "generateId (ex_env 4000) = ''4000-k3j9x0a1b''"
  by (simp_all add: generateId_def ex_env_def int_to_string_def nat_to_string.simps digit_char_def)

lemma ex_snapshot_fits:
  "fits ex_storage (json_text (ChatState_json (ex_platform [] []) ex_snapshot))"
  by (simp add: ChatState_json_def Message_json_def ex_snapshot_def ex_log_def agentMessage_def
      userMessage_def ex_result_def ex_qualification_def optional_props_def
      LeadQualification_json_def Date_toJSON_def role_text_def quote_def ex_ids ex_iso
      fits_def ex_storage_def STORAGE_KEY_def area_size_def ex_ids2)

lemma ex_codec_json: "ChatState_json ex_codec s = ChatState_json (ex_platform [] []) s"
  by (rule ChatState_json_cong) (simp add: ex_codec_def)

lemma ex_codec_stringify [simp]: "JSON_stringify ex_codec = json_text"
  by (simp add: ex_codec_def ex_platform_def)

lemma json_text_object: "json_text (ChatState_json P s) \<noteq> []"
  by (simp add: ChatState_json_def)

lemma ex_codec_parse:
  "JSON_parse ex_codec (json_text (ChatState_json (ex_platform [] []) ex_snapshot))
     = Some (ChatState_json (ex_platform [] []) ex_snapshot)"
  by (simp add: ex_codec_def ex_platform_def)

lemma ex_codec_dates:
  "Date_of_string ex_codec (toISOString ex_codec 1000) = Date 1000"
  "Date_of_string ex_codec (toISOString ex_codec 2000) = Date 2000"
  by (simp_all add: ex_codec_def ex_platform_def ex_iso)

theorem save_load_roundtrip_witness:
  "fits ex_storage (JSON_stringify ex_codec (ChatState_json ex_codec ex_snapshot))
   \<and> JSON_stringify ex_codec (ChatState_json ex_codec ex_snapshot) \<noteq> []
   \<and> JSON_parse ex_codec (JSON_stringify ex_codec (ChatState_json ex_codec ex_snapshot))
       = Some (ChatState_json ex_codec ex_snapshot)
   \<and> map timestamp (cs_messages ex_snapshot) = [Date 1000, Date 2000]
   \<and> Date_of_string ex_codec (toISOString ex_codec 1000) = Date 1000
   \<and> Date_of_string ex_codec (toISOString ex_codec 2000) = Date 2000
   \<and> (\<exists>l. loadChatState ex_codec (saveChatState ex_codec ex_snapshot ex_storage) = Some l
          \<and> as_ChatState l = Some ex_snapshot)"
proof -
  have a: "fits ex_storage (JSON_stringify ex_codec (ChatState_json ex_codec ex_snapshot))"
    using ex_snapshot_fits by (simp add: ex_codec_json)
  have b: "JSON_stringify ex_codec (ChatState_json ex_codec ex_snapshot) \<noteq> []"
    by (simp add: json_text_object)
  have c: "JSON_parse ex_codec (JSON_stringify ex_codec (ChatState_json ex_codec ex_snapshot))
       = Some (ChatState_json ex_codec ex_snapshot)"
    using ex_codec_parse by (simp add: ex_codec_json)
  have ts: "map timestamp (cs_messages ex_snapshot) = [Date 1000, Date 2000]"
    by (simp add: ex_snapshot_def ex_log_def agentMessage_def userMessage_def)
  have d: "\<forall>m \<in> set (cs_messages ex_snapshot).
             \<exists>t. timestamp m = Date t \<and> Date_of_string ex_codec (toISOString ex_codec t) = Date t"
    using ex_codec_dates
    by (simp add: ex_snapshot_def ex_log_def agentMessage_def userMessage_def)
  from save_load_roundtrip [OF a b c d] a b c ts ex_codec_dates show ?thesis by simp
qed

lemma ex_undated_fits:
  "fits ex_storage (json_text (ChatState_json (ex_platform [] []) ex_undated))"
  by (simp add: ChatState_json_def Message_json_def ex_undated_def userMessage_def
      optional_props_def Date_toJSON_def role_text_def quote_def ex_ids
      fits_def ex_storage_def STORAGE_KEY_def area_size_def)

text \<open>
  The claim as stated fails for the invalid date, which the component holds after it has
  loaded a stored message without a timestamp: \<^verbatim>\<open>JSON.stringify\<close> writes it as
  \<^verbatim>\<open>null\<close>, and \<^verbatim>\<open>new Date(null)\<close> is 1 January 1970.
\<close>

theorem invalid_date_roundtrip_counterexample:
  "map timestamp (cs_messages ex_undated) = [Invalid_Date]
   \<and> (\<exists>l. loadChatState (ex_reads (ChatState_json (ex_platform [] []) ex_undated))
            (saveChatState (ex_reads (ChatState_json (ex_platform [] []) ex_undated))
               ex_undated ex_storage) = Some l
          \<and> (\<exists>s. as_ChatState l = Some s \<and> map timestamp (cs_messages s) = [Date 0]))"
proof -
  let ?P = "ex_reads (ChatState_json (ex_platform [] []) ex_undated)"
  have j: "ChatState_json ?P ex_undated = ChatState_json (ex_platform [] []) ex_undated"
    by (rule ChatState_json_cong) (simp add: ex_reads_def)
  have str: "JSON_stringify ?P = json_text"
    by (simp add: ex_reads_def ex_platform_def)
  have a: "fits ex_storage (JSON_stringify ?P (ChatState_json ?P ex_undated))"
    using ex_undated_fits by (simp add: j str)
  have b: "JSON_stringify ?P (ChatState_json ?P ex_undated) \<noteq> []"
    by (simp add: str json_text_object)
  have c: "JSON_parse ?P (JSON_stringify ?P (ChatState_json ?P ex_undated))
       = Some (ChatState_json ?P ex_undated)"
    by (simp add: j str ex_reads_parse)
  have ts: "map timestamp (cs_messages ex_undated) = [Invalid_Date]"
    by (simp add: ex_undated_def)
  let ?l = "\<lparr>ls_messages = map (reloaded ?P) (cs_messages ex_undated),
             ls_fields = [(''sessionId'', JStr (cs_sessionId ex_undated)),
                          (''userId'', JStr (cs_userId ex_undated))]\<rparr>"
  have l: "loadChatState ?P (saveChatState ?P ex_undated ex_storage) = Some ?l"
    by (rule load_after_save [OF a b c])
  let ?s = "\<lparr>cs_messages =
                map (\<lambda>m. m\<lparr>timestamp := reload_date ?P (timestamp m)\<rparr>)
                  (cs_messages ex_undated),
              cs_sessionId = cs_sessionId ex_undated, cs_userId = cs_userId ex_undated\<rparr>"
  have m: "as_Messages (ls_messages ?l) = Some (cs_messages ?s)"
    by (simp only: loaded_state.simps ChatState.simps as_Messages_reloaded)
  have t0: "as_ChatState ?l = Some ?s"
    unfolding as_ChatState_def m by simp
  have t1: "map timestamp (cs_messages ?s) = [Date 0]"
    by (simp add: ex_undated_def reload_date_def)
  from t0 t1 have "\<exists>s. as_ChatState ?l = Some s \<and> map timestamp (cs_messages s) = [Date 0]"
    by (intro exI [of _ ?s] conjI)
  with l have "\<exists>l. loadChatState ?P (saveChatState ?P ex_undated ex_storage) = Some l
          \<and> (\<exists>s. as_ChatState l = Some s \<and> map timestamp (cs_messages s) = [Date 0])"
    by (intro exI [of _ ?l] conjI)
  with ts show ?thesis by (intro conjI)
qed

subsection \<open>The persisted snapshot follows the log\<close>

lemma saveChatState_fits:
  "saveChatState P s st =
     (if fits st (JSON_stringify P (ChatState_json P s))
      then st\<lparr>items := AList.update STORAGE_KEY (JSON_stringify P (ChatState_json P s)) (items st)\<rparr>
      else st)"
  by (simp add: saveChatState_def setItem_def fits_def Let_def)

lemma messages_handleInputChange [simp]: "messages (handleInputChange v u) = messages u"
  by (simp add: handleInputChange_def)

lemma storage_handle:
  "storage (handle P e ev w) =
     (if ev = Reset then removeItem (storage w) STORAGE_KEY
      else if messages (ui (handle P e ev w)) \<noteq> messages (ui w)
      then saveChatState P (snapshot (ui (handle P e ev w))) (storage w)
      else storage w)"
  by (cases ev)
     (simp_all add: handle_def reset_def handleKeyPress_def handleSendMessage_def
       handleQuickReply_def handleSendMessage_resume_def greeting_timeout_def unmount_def
       greeting_cleanup_def storage_after_render messages_agent_update Let_def)

lemma messages_handle_nonempty:
  "ev \<noteq> Reset \<Longrightarrow> messages (ui (handle P e ev w)) \<noteq> messages (ui w) \<Longrightarrow>
   messages (ui (handle P e ev w)) \<noteq> []"
  by (cases ev)
     (auto simp: handle_def handleKeyPress_def handleSendMessage_def
       handleQuickReply_def handleSendMessage_resume_def greeting_timeout_def unmount_def
       greeting_cleanup_def messages_agent_update Let_def)

lemma storage_step:
  "storage (step P x w) = storage w
   \<or> (snd x = Reset \<and> storage (step P x w) = removeItem (storage w) STORAGE_KEY)
   \<or> (snd x \<noteq> Reset \<and> messages (ui (step P x w)) \<noteq> messages (ui w)
       \<and> messages (ui (step P x w)) \<noteq> []
       \<and> storage (step P x w) = saveChatState P (snapshot (ui (step P x w))) (storage w))"
  using messages_handle_nonempty [of "snd x" P "fst x" w]
  by (auto simp: step_def storage_handle)

lemma messages_reset: "messages (ui (handle P e Reset w)) = []"
  by (simp add: handle_def reset_def)

lemma load_removed: "loadChatState P (removeItem st STORAGE_KEY) = None"
  by (simp add: loadChatState_def getItem_removeItem)

lemma step_changed:
  "messages (ui (step P x w)) \<noteq> messages (ui w) \<Longrightarrow> step P x w = handle P (fst x) (snd x) w"
  by (simp add: step_def split: if_splits)

lemma step_written:
  assumes "messages (ui (step P x w)) \<noteq> messages (ui w)" and "messages (ui (step P x w)) \<noteq> []"
  shows "storage (step P x w) = saveChatState P (snapshot (ui (step P x w))) (storage w)"
proof -
  note h = step_changed [OF assms(1)]
  from assms(2) have "snd x \<noteq> Reset"
    using messages_reset [of P "fst x" w] by (auto simp: h)
  with assms(1) show ?thesis
    by (simp add: h storage_handle)
qed

lemma step_cleared:
  assumes "messages (ui (step P x w)) \<noteq> messages (ui w)" and "messages (ui (step P x w)) = []"
  shows "storage (step P x w) = removeItem (storage w) STORAGE_KEY"
proof -
  note h = step_changed [OF assms(1)]
  have "snd x = Reset"
  proof (rule ccontr)
    assume "snd x \<noteq> Reset"
    from messages_handle_nonempty [OF this, of P "fst x" w] assms show False
      by (simp add: h)
  qed
  then show ?thesis by (simp add: h storage_handle)
qed

lemma step_kept:
  assumes "messages (ui (step P x w)) = [] \<or> messages (ui (step P x w)) = messages (ui w)"
  shows "storage (step P x w) = storage w \<or> storage (step P x w) = removeItem (storage w) STORAGE_KEY"
proof (cases "messages (ui (step P x w)) = messages (ui w)")
  case True
  then show ?thesis by (auto simp: step_def storage_handle)
next
  case False
  with assms step_cleared [OF False] show ?thesis by simp
qed

text \<open>
  Claim C3, as the code has it. In a step that changes the log and leaves it non-empty,
  the save effect writes the whole current snapshot; a write that the storage area
  rejects is dropped, and the area stays as it was. In a step that leaves the log empty
  or unchanged, nothing is written: the area stays as it was, or loses the snapshot key
  (the reset). After a step that empties the log there is no snapshot to load. After a
  step that changes the log and leaves it non-empty, if the area accepts the write and
  \<^verbatim>\<open>JSON.parse\<close> reads the text back, the snapshot that loads has as many messages
  as the log.
\<close>

theorem persistence_step:
  assumes "w' = step P x w"
    and "txt = JSON_stringify P (ChatState_json P (snapshot (ui w')))"
  shows "(messages (ui w') \<noteq> messages (ui w) \<and> messages (ui w') \<noteq> [] \<longrightarrow>
           storage w' = saveChatState P (snapshot (ui w')) (storage w))
    \<and> (messages (ui w') = [] \<or> messages (ui w') = messages (ui w) \<longrightarrow>
           storage w' = storage w \<or> storage w' = removeItem (storage w) STORAGE_KEY)
    \<and> (messages (ui w') \<noteq> messages (ui w) \<and> messages (ui w') = [] \<longrightarrow>
           loadChatState P (storage w') = None)
    \<and> (messages (ui w') \<noteq> messages (ui w) \<and> messages (ui w') \<noteq> []
         \<and> fits (storage w) txt \<and> txt \<noteq> []
         \<and> JSON_parse P txt = Some (ChatState_json P (snapshot (ui w'))) \<longrightarrow>
           (\<exists>l. loadChatState P (storage w') = Some l
                \<and> length (ls_messages l) = length (messages (ui w'))))"
proof -
  have written: "messages (ui w') \<noteq> messages (ui w) \<and> messages (ui w') \<noteq> [] \<longrightarrow>
           storage w' = saveChatState P (snapshot (ui w')) (storage w)"
    unfolding assms(1) using step_written [of P x w] by blast
  have kept: "messages (ui w') = [] \<or> messages (ui w') = messages (ui w) \<longrightarrow>
           storage w' = storage w \<or> storage w' = removeItem (storage w) STORAGE_KEY"
    unfolding assms(1) using step_kept [of P x w] by blast
  have cleared: "messages (ui w') \<noteq> messages (ui w) \<and> messages (ui w') = [] \<longrightarrow>
           loadChatState P (storage w') = None"
    unfolding assms(1) using step_cleared [of P x w] by (auto simp: load_removed)
  have counted: "\<exists>l. loadChatState P (storage w') = Some l
                \<and> length (ls_messages l) = length (messages (ui w'))"
    if "messages (ui w') \<noteq> messages (ui w) \<and> messages (ui w') \<noteq> []"
      and "fits (storage w) txt" "txt \<noteq> []"
      and "JSON_parse P txt = Some (ChatState_json P (snapshot (ui w')))"
  proof -
    from that(1) written have "storage w' = saveChatState P (snapshot (ui w')) (storage w)"
      by blast
    moreover from load_after_save [of "storage w" P "snapshot (ui w')"] that(2-4)
    have "loadChatState P (saveChatState P (snapshot (ui w')) (storage w))
           = Some \<lparr>ls_messages = map (reloaded P) (cs_messages (snapshot (ui w'))),
                   ls_fields = [(''sessionId'', JStr (cs_sessionId (snapshot (ui w')))),
                                (''userId'', JStr (cs_userId (snapshot (ui w'))))]\<rparr>"
      by (simp add: assms(2))
    ultimately show ?thesis by (simp add: snapshot_def)
  qed
  from written kept cleared counted show ?thesis by blast
qed

lemmas ex_step_simps =
  step_def enabled_def handle_def handleSendMessage_def handleInputChange_def
  handleSendMessage_resume_def agent_update_def update_quick_replies_def
  initial_widget_def MAX_CHAR_LIMIT_def Let_def trim_def is_space_def

lemma ex_sent_codec_json: "ChatState_json ex_sent_codec s = ChatState_json (ex_platform [] []) s"
  by (rule ChatState_json_cong) (simp add: ex_sent_codec_def ex_reads_def)

lemma ex_sent_codec_stringify [simp]: "JSON_stringify ex_sent_codec = json_text"
  by (simp add: ex_sent_codec_def ex_reads_def ex_platform_def)

lemma ex_sent_codec_parse:
  "JSON_parse ex_sent_codec (json_text (ChatState_json (ex_platform [] []) ex_sent))
     = Some (ChatState_json (ex_platform [] []) ex_sent)"
  by (simp add: ex_sent_codec_def ex_reads_parse)

lemma ex_before_send_eval:
  "messages (ui ex_before_send) = []" "storage ex_before_send = ex_storage"
  by (simp_all add: ex_before_send_def ex_mounted_def ex_step_simps)

lemma ex_after_send_eval:
  "messages (ui ex_after_send) = [userMessage (ex_env 3000) ''hi'']"
  "snapshot (ui ex_after_send) = ex_sent"
  by (simp_all add: ex_after_send_def ex_before_send_def ex_mounted_def ex_step_simps
      snapshot_def ex_sent_def)

lemma ex_sent_text:
  "json_text (ChatState_json (ex_platform [] []) ex_sent) \<noteq> []"
  "length (json_text (ChatState_json (ex_platform [] []) ex_sent)) = 168"
  by (simp_all add: ChatState_json_def Message_json_def ex_sent_def userMessage_def
      optional_props_def Date_toJSON_def role_text_def quote_def ex_ids2 ex_iso
      iso_text_def pad_def int_to_string_def nat_to_string.simps digit_char_def eval_nat_numeral)

lemma ex_sent_fits:
  "fits ex_storage (json_text (ChatState_json (ex_platform [] []) ex_sent))"
  "fits ex_tight_storage (json_text (ChatState_json (ex_platform [] []) ex_sent))"
  by (simp_all add: fits_def ex_storage_def ex_tight_storage_def STORAGE_KEY_def area_size_def
      ex_sent_text)

theorem persistence_step_witness:
  "messages (ui ex_after_send) \<noteq> messages (ui ex_before_send)
   \<and> messages (ui ex_after_send) \<noteq> []
   \<and> fits (storage ex_before_send)
        (JSON_stringify ex_sent_codec (ChatState_json ex_sent_codec (snapshot (ui ex_after_send))))
   \<and> JSON_stringify ex_sent_codec (ChatState_json ex_sent_codec (snapshot (ui ex_after_send))) \<noteq> []
   \<and> JSON_parse ex_sent_codec
        (JSON_stringify ex_sent_codec (ChatState_json ex_sent_codec (snapshot (ui ex_after_send))))
       = Some (ChatState_json ex_sent_codec (snapshot (ui ex_after_send)))
   \<and> storage ex_after_send = saveChatState ex_sent_codec (snapshot (ui ex_after_send)) (storage ex_before_send)
   \<and> (\<exists>l. loadChatState ex_sent_codec (storage ex_after_send) = Some l
          \<and> length (ls_messages l) = length (messages (ui ex_after_send)))"
proof -
  have a: "messages (ui ex_after_send) \<noteq> messages (ui ex_before_send)"
    "messages (ui ex_after_send) \<noteq> []"
    by (simp_all add: ex_after_send_eval ex_before_send_eval)
  have b: "fits (storage ex_before_send)
        (JSON_stringify ex_sent_codec (ChatState_json ex_sent_codec (snapshot (ui ex_after_send))))"
    by (simp add: ex_after_send_eval ex_before_send_eval ex_sent_codec_json ex_sent_fits)
  have c: "JSON_stringify ex_sent_codec (ChatState_json ex_sent_codec (snapshot (ui ex_after_send))) \<noteq> []"
    by (simp add: ex_after_send_eval ex_sent_codec_json ex_sent_text)
  have d: "JSON_parse ex_sent_codec
        (JSON_stringify ex_sent_codec (ChatState_json ex_sent_codec (snapshot (ui ex_after_send))))
       = Some (ChatState_json ex_sent_codec (snapshot (ui ex_after_send)))"
    by (simp add: ex_after_send_eval ex_sent_codec_json ex_sent_codec_parse)
  from persistence_step [OF ex_after_send_def refl] a b c d show ?thesis by blast
qed

lemma ex_mount_tight:
  "mount P (ex_env 0) (ex_env 0) 0 ex_tight_storage = Inr ex_tight_mounted"
proof -
  have "generateUserId (ex_env 0) ex_tight_storage = Inr (''user-0-k3j9x0a1b'', ex_tight_storage)"
    by (simp add: generateUserId_def getItem_def ex_tight_storage_def USER_ID_KEY_def)
  moreover have "loadChatState P ex_tight_storage = None"
    by (simp add: loadChatState_def getItem_def ex_tight_storage_def STORAGE_KEY_def)
  ultimately show ?thesis
    by (simp add: mount_fresh ex_tight_mounted_def ex_mounted_def generateSessionId_def ex_ids
        AUTO_GREETING_DELAY_def)
qed

lemma ex_tight_sent_eval:
  "messages (ui ex_tight_sent) = [userMessage (ex_env 3000) ''hi'']"
  "storage ex_tight_sent = saveChatState ex_sent_codec ex_sent ex_tight_storage"
  "pending ex_tight_sent = 1" "mounted ex_tight_sent"
  by (simp_all add: ex_tight_sent_def ex_tight_mounted_def ex_mounted_def ex_step_simps
      storage_after_render snapshot_def ex_sent_def)

lemma ex_tight_answered_eval:
  "messages (ui ex_tight_answered)
     = [userMessage (ex_env 3000) ''hi'', agentMessage (ex_env 4000) ex_result]"
  "snapshot (ui ex_tight_answered)
     = ex_sent\<lparr>cs_messages := [userMessage (ex_env 3000) ''hi'', agentMessage (ex_env 4000) ex_result]\<rparr>"
  by (simp_all add: ex_tight_answered_def ex_tight_sent_def ex_tight_mounted_def ex_mounted_def
      ex_step_simps snapshot_def ex_sent_def ex_result_def)

lemma ex_answer_too_long:
  "length (json_text (ChatState_json (ex_platform [] [])
      (ex_sent\<lparr>cs_messages := [userMessage (ex_env 3000) ''hi'', agentMessage (ex_env 4000) ex_result]\<rparr>)))
    > 300"
  by (simp add: ChatState_json_def Message_json_def ex_sent_def userMessage_def agentMessage_def
      ex_result_def ex_qualification_def LeadQualification_json_def
      optional_props_def Date_toJSON_def role_text_def quote_def ex_ids2 ex_iso
      iso_text_def pad_def int_to_string_def nat_to_string.simps digit_char_def eval_nat_numeral)

text \<open>
  The claim as stated fails when the storage area rejects a write: the area has room for
  the snapshot with the visitor's message, but not for the one with the agent's answer.
  The log then has two messages, and the persisted snapshot still has one.
\<close>

theorem failed_write_counterexample:
  "mount ex_sent_codec (ex_env 0) (ex_env 0) 0 ex_tight_storage = Inr ex_tight_mounted
   \<and> length (messages (ui ex_tight_answered)) = 2
   \<and> (\<exists>l. loadChatState ex_sent_codec (storage ex_tight_answered) = Some l
          \<and> length (ls_messages l) = 1)"
proof -
  let ?P = ex_sent_codec
  let ?txt = "json_text (ChatState_json (ex_platform [] []) ex_sent)"
  have two: "length (messages (ui ex_tight_answered)) = 2"
    by (simp add: ex_tight_answered_eval)
  have st1: "storage ex_tight_sent
      = ex_tight_storage\<lparr>items := AList.update STORAGE_KEY ?txt (items ex_tight_storage)\<rparr>"
    by (simp add: ex_tight_sent_eval saveChatState_fits ex_sent_codec_json ex_sent_fits)
  have "storage ex_tight_answered
      = saveChatState ?P (snapshot (ui ex_tight_answered)) (storage ex_tight_sent)"
    unfolding ex_tight_answered_def
    by (rule step_written)
       (simp_all add: ex_tight_answered_eval [unfolded ex_tight_answered_def] ex_tight_sent_eval)
  moreover have "\<not> fits (storage ex_tight_sent)
      (JSON_stringify ?P (ChatState_json ?P (snapshot (ui ex_tight_answered))))"
    using ex_answer_too_long
    by (simp add: st1 fits_def ex_tight_answered_eval ex_sent_codec_json ex_tight_storage_def
        STORAGE_KEY_def area_size_def)
  ultimately have same: "storage ex_tight_answered = storage ex_tight_sent"
    by (simp add: saveChatState_fits)
  have "loadChatState ?P (saveChatState ?P ex_sent ex_tight_storage)
           = Some \<lparr>ls_messages = map (reloaded ?P) (cs_messages ex_sent),
                   ls_fields = [(''sessionId'', JStr (cs_sessionId ex_sent)),
                                (''userId'', JStr (cs_userId ex_sent))]\<rparr>"
    by (rule load_after_save)
       (simp_all add: ex_sent_codec_json ex_sent_fits ex_sent_text ex_sent_codec_parse)
  then have "\<exists>l. loadChatState ?P (storage ex_tight_answered) = Some l \<and> length (ls_messages l) = 1"
    by (simp add: same ex_tight_sent_eval ex_sent_def)
  with two ex_mount_tight [of ?P] show ?thesis by (intro conjI)
qed

subsection \<open>The booking prompt\<close>

lemma of_char_lower_char:
  "(of_char (lower_char c) :: nat) =
     (if (65 \<le> (of_char c :: nat) \<and> (of_char c :: nat) \<le> 90)
         \<or> (192 \<le> (of_char c :: nat) \<and> (of_char c :: nat) \<le> 222 \<and> (of_char c :: nat) \<noteq> 215)
      then of_char c + 32 else of_char c)"
  by (auto simp: lower_char_def Let_def)

text \<open>A small letter of the alphabet is the lower case of itself and of its capital only.\<close>

lemma lower_char_eq:
  assumes "(of_char l :: nat) = n" and "(of_char u :: nat) = n - 32" and "97 \<le> n" and "n \<le> 122"
  shows "lower_char c = l \<longleftrightarrow> c = l \<or> c = u"
proof -
  have "lower_char c = l \<longleftrightarrow> (of_char (lower_char c) :: nat) = of_char l"
    by simp
  also have "\<dots> \<longleftrightarrow> (of_char c :: nat) = n \<or> (of_char c :: nat) = n - 32"
    using assms(3,4) by (auto simp: of_char_lower_char assms(1))
  also have "\<dots> \<longleftrightarrow> (of_char c :: nat) = of_char l \<or> (of_char c :: nat) = of_char u"
    by (simp add: assms(1,2))
  also have "\<dots> \<longleftrightarrow> c = l \<or> c = u"
    by simp
  finally show ?thesis .
qed

lemma lower_char_book:
  "lower_char c = CHR ''b'' \<longleftrightarrow> c = CHR ''b'' \<or> c = CHR ''B''"
  "lower_char c = CHR ''o'' \<longleftrightarrow> c = CHR ''o'' \<or> c = CHR ''O''"
  "lower_char c = CHR ''k'' \<longleftrightarrow> c = CHR ''k'' \<or> c = CHR ''K''"
  by (rule lower_char_eq [where n = 98], simp_all)
     (rule lower_char_eq [where n = 111], simp_all, rule lower_char_eq [where n = 107], simp_all)

text \<open>
  What the guard of \<^const>\<open>BookingCTA\<close> computes on the next action: whether it has four
  characters in a row that spell \<open>book\<close>, each in either case.
\<close>

lemma includes_book:
  "includes_str (toLowerCase s) ''book'' \<longleftrightarrow>
     (\<exists>before c1 c2 c3 c4 after.
        s = before @ [c1, c2, c3, c4] @ after
        \<and> (c1 = CHR ''b'' \<or> c1 = CHR ''B'') \<and> (c2 = CHR ''o'' \<or> c2 = CHR ''O'')
        \<and> (c3 = CHR ''o'' \<or> c3 = CHR ''O'') \<and> (c4 = CHR ''k'' \<or> c4 = CHR ''K''))"
  (is "?L \<longleftrightarrow> ?R")
proof
  assume ?L
  then obtain ps ss where "map lower_char s = ps @ ''book'' @ ss"
    by (auto simp: includes_str_sublist toLowerCase_def sublist_def)
  then obtain before rest where s: "s = before @ rest" and "map lower_char rest = ''book'' @ ss"
    by (auto simp: map_eq_append_conv)
  then obtain c1 c2 c3 c4 after where rest: "rest = [c1, c2, c3, c4] @ after"
    and l: "lower_char c1 = CHR ''b''" "lower_char c2 = CHR ''o''"
      "lower_char c3 = CHR ''o''" "lower_char c4 = CHR ''k''"
    by (auto simp: map_eq_Cons_conv)
  from l have "(c1 = CHR ''b'' \<or> c1 = CHR ''B'') \<and> (c2 = CHR ''o'' \<or> c2 = CHR ''O'')
        \<and> (c3 = CHR ''o'' \<or> c3 = CHR ''O'') \<and> (c4 = CHR ''k'' \<or> c4 = CHR ''K'')"
    by (simp only: lower_char_book)
  with s rest show ?R by blast
next
  assume ?R
  then obtain before c1 c2 c3 c4 after where s: "s = before @ [c1, c2, c3, c4] @ after"
    and c: "(c1 = CHR ''b'' \<or> c1 = CHR ''B'')" "(c2 = CHR ''o'' \<or> c2 = CHR ''O'')"
        "(c3 = CHR ''o'' \<or> c3 = CHR ''O'')" "(c4 = CHR ''k'' \<or> c4 = CHR ''K'')"
    by blast
  from c have "lower_char c1 = CHR ''b''" "lower_char c2 = CHR ''o''"
      "lower_char c3 = CHR ''o''" "lower_char c4 = CHR ''k''"
    by (simp_all only: lower_char_book)
  then have "map lower_char s = map lower_char before @ ''book'' @ map lower_char after"
    by (simp add: s)
  then show ?L
    by (auto simp: includes_str_sublist toLowerCase_def sublist_def)
qed

lemma booking_prompt_latest:
  "booking_prompt u \<longleftrightarrow>
     isOpen u
     \<and> (\<exists>q. latestQualification (messages u) = Some q \<and> is_qualified q
            \<and> includes_str (toLowerCase (next_action q)) ''book'')"
  by (auto simp: booking_prompt_def BookingCTA_def split: option.splits)

text \<open>
  Claim C5, as the code has it. The component shows the booking prompt if and only if
  it is expanded, its log has an agent message with a qualification such that no later
  message is an agent message with a qualification (later messages of other kinds may
  follow), that qualification is qualified, and its next action has four characters in
  a row that spell \<open>book\<close>, each in either case. The collapsed component shows no
  prompt.
\<close>

theorem booking_prompt_shown_iff:
  "booking_prompt u \<longleftrightarrow>
     isOpen u
     \<and> (\<exists>pre m post q.
          messages u = pre @ m # post \<and> role m = Agent \<and> lead_qualification m = Some q
          \<and> (\<forall>m' \<in> set post. \<not> (role m' = Agent \<and> lead_qualification m' \<noteq> None))
          \<and> is_qualified q
          \<and> (\<exists>before c1 c2 c3 c4 after.
                next_action q = before @ [c1, c2, c3, c4] @ after
                \<and> (c1 = CHR ''b'' \<or> c1 = CHR ''B'') \<and> (c2 = CHR ''o'' \<or> c2 = CHR ''O'')
                \<and> (c3 = CHR ''o'' \<or> c3 = CHR ''O'') \<and> (c4 = CHR ''k'' \<or> c4 = CHR ''K'')))"
  unfolding booking_prompt_latest latestQualification_Some_iff includes_book by blast

lemma update_quick_replies_fields [simp]:
  "isOpen (update_quick_replies d u) = isOpen u"
  "isTyping (update_quick_replies d u) = isTyping u"
  by (simp_all add: update_quick_replies_def split: option.splits)

lemma ex_conversation_eval:
  "isOpen (ui (run P (ex_conversation r) ex_mounted))"
  "messages (ui (run P (ex_conversation r) ex_mounted))
     = [userMessage (ex_env 3000) ''hi'', agentMessage (ex_env 4000) r,
        userMessage (ex_env 6000) ''thanks'']"
  "mounted (run P (ex_conversation r) ex_mounted)"
  by (simp_all add: ex_conversation_def ex_mounted_def step_def enabled_def handle_def
      handleSendMessage_def handleInputChange_def handleSendMessage_resume_def agent_update_def
      initial_widget_def MAX_CHAR_LIMIT_def Let_def trim_def is_space_def)

lemma ex_latest:
  "ar_lead_qualification r = Some q \<Longrightarrow>
   latestQualification (messages (ui (run P (ex_conversation r) ex_mounted))) = Some q"
  by (simp add: ex_conversation_eval latestQualification_def userMessage_def agentMessage_def)

lemma ex_guard:
  "includes_str (toLowerCase ''Book a consultation'') ''book''"
  "\<not> includes_str (toLowerCase ''Send info'') ''book''"
  by code_simp+

lemma ex_qualification_guard:
  "is_qualified ex_qualification"
  "includes_str (toLowerCase (next_action ex_qualification)) ''book''"
  by (simp_all only: ex_qualification_def LeadQualification.select_convs ex_guard)

theorem booking_prompt_shown_iff_witness:
  "isOpen (ui (run (ex_platform [] []) (ex_conversation ex_result) ex_mounted))
   \<and> booking_prompt (ui (run (ex_platform [] []) (ex_conversation ex_result) ex_mounted))
   \<and> role (last (messages (ui (run (ex_platform [] []) (ex_conversation ex_result) ex_mounted)))) = User
   \<and> (\<exists>pre m post q.
        messages (ui (run (ex_platform [] []) (ex_conversation ex_result) ex_mounted)) = pre @ m # post
        \<and> role m = Agent \<and> lead_qualification m = Some q
        \<and> (\<forall>m' \<in> set post. \<not> (role m' = Agent \<and> lead_qualification m' \<noteq> None))
        \<and> is_qualified q
        \<and> (\<exists>before c1 c2 c3 c4 after.
              next_action q = before @ [c1, c2, c3, c4] @ after
              \<and> (c1 = CHR ''b'' \<or> c1 = CHR ''B'') \<and> (c2 = CHR ''o'' \<or> c2 = CHR ''O'')
              \<and> (c3 = CHR ''o'' \<or> c3 = CHR ''O'') \<and> (c4 = CHR ''k'' \<or> c4 = CHR ''K'')))
   \<and> isOpen (ui (run (ex_platform [] []) (ex_conversation ex_info_result) ex_mounted))
   \<and> \<not> booking_prompt (ui (run (ex_platform [] []) (ex_conversation ex_info_result) ex_mounted))"
proof -
  let ?u = "ui (run (ex_platform [] []) (ex_conversation ex_result) ex_mounted)"
  let ?v = "ui (run (ex_platform [] []) (ex_conversation ex_info_result) ex_mounted)"
  have latest: "latestQualification (messages ?u) = Some ex_qualification"
    by (rule ex_latest) (simp add: ex_result_def)
  have shown: "booking_prompt ?u"
    by (simp add: booking_prompt_def latest BookingCTA_def ex_conversation_eval(1)
        ex_qualification_guard)
  have user: "role (last (messages ?u)) = User"
    by (simp add: ex_conversation_eval userMessage_def)
  have "latestQualification (messages ?v)
      = Some \<lparr>is_qualified = True, interest_level = ''high'', next_action = ''Send info''\<rparr>"
    by (rule ex_latest) (simp add: ex_info_result_def)
  then have hidden: "\<not> booking_prompt ?v"
    by (simp add: booking_prompt_def BookingCTA_def ex_guard(2))
  from shown booking_prompt_shown_iff [of ?u] user hidden ex_conversation_eval(1)
  show ?thesis by blast
qed

text \<open>
  The claim as stated fails for the collapsed component: after the same conversation
  the visitor minimizes the panel. The latest qualification is qualified and its next
  action contains \<open>book\<close>, and the component shows the floating button only.
\<close>

theorem collapsed_no_prompt_counterexample:
  "latestQualification (messages (ui (run (ex_platform [] [])
       (ex_conversation ex_result @ [(ex_env 7000, Minimize)]) ex_mounted))) = Some ex_qualification
   \<and> is_qualified ex_qualification
   \<and> includes_str (toLowerCase (next_action ex_qualification)) ''book''
   \<and> \<not> isOpen (ui (run (ex_platform [] [])
       (ex_conversation ex_result @ [(ex_env 7000, Minimize)]) ex_mounted))
   \<and> \<not> booking_prompt (ui (run (ex_platform [] [])
       (ex_conversation ex_result @ [(ex_env 7000, Minimize)]) ex_mounted))"
proof -
  have run_append: "run P (xs @ [x]) w = step P x (run P xs w)" for P xs x w
    by (induction xs arbitrary: w) simp_all
  let ?w = "run (ex_platform [] []) (ex_conversation ex_result) ex_mounted"
  have closed: "ui (step (ex_platform [] []) (ex_env 7000, Minimize) ?w) = (ui ?w)\<lparr>isOpen := False\<rparr>"
    by (simp add: step_def enabled_def handle_def ex_conversation_eval)
  have latest: "latestQualification (messages (ui ?w)) = Some ex_qualification"
    by (rule ex_latest) (simp add: ex_result_def)
  show ?thesis
    by (simp add: run_append closed latest ex_qualification_guard booking_prompt_def)
qed

end
